theory Spec2Isabelle
  imports Complex_Main "HOL-Library.Sublist"
begin

section \<open>Python values, exceptions and the built-in operations the source uses\<close>

text \<open>
  The program is dynamically typed: whatever \<^verbatim>\<open>json.loads\<close> or \<^verbatim>\<open>response.json()\<close>
  returns flows through it unchecked. A value is therefore one of the shapes a parsed JSON
  document has in Python: \<open>None\<close>, a bool, an int, a finite float, a str, a list or a dict
  (an association list in insertion order, keys distinct). A Python \<open>str\<close> is a \<open>string\<close>
  with one \<open>char\<close> per code point, so the model covers the code points below 256.
\<close>

datatype json =
    JNull
  | JBool bool
  | JInt int
  | JFloat real
  | JStr string
  | JList "json list"
  | JObj "(string \<times> json) list"

text \<open>
  The exceptions that can occur. \<open>RequestException\<close> is what \<^verbatim>\<open>requests\<close> raises when a
  call cannot be completed (connection refused, timeout), with its message;
  \<open>JSONDecodeError\<close> is raised by \<^verbatim>\<open>json.loads\<close> and by \<^verbatim>\<open>response.json()\<close>
  (whose exception class derives from \<^verbatim>\<open>json.JSONDecodeError\<close>);
  \<open>Exception\<close> is \<^verbatim>\<open>raise Exception(msg)\<close> of the source. The others are raised by the
  interpreter when an operation does not fit the value it is applied to.
\<close>

datatype exn =
    KeyError json
  | IndexError
  | TypeError
  | AttributeError
  | JSONDecodeError
  | RequestException string
  | Exception string

text \<open>
  What the standard library and the interpreter compute and the source does not determine:
  \<^verbatim>\<open>json.loads\<close> (\<open>None\<close> when it raises \<^verbatim>\<open>JSONDecodeError\<close>),
  \<^verbatim>\<open>json.dumps(v, indent=2)\<close>, \<^verbatim>\<open>str(v)\<close> of a value that is not a str, and the
  message of an exception the interpreter raises. They are parameters of the model.
\<close>

record pylib =
  loads :: "string \<Rightarrow> json option"
  dumps :: "json \<Rightarrow> string"
  str_of :: "json \<Rightarrow> string"
  exc_msg :: "exn \<Rightarrow> string"

definition and_then :: "exn + 'a \<Rightarrow> ('a \<Rightarrow> exn + 'b) \<Rightarrow> exn + 'b" where
  "and_then m f = (case m of Inl e \<Rightarrow> Inl e | Inr x \<Rightarrow> f x)"

fun map_exn :: "('a \<Rightarrow> exn + 'b) \<Rightarrow> 'a list \<Rightarrow> exn + 'b list" where
  "map_exn f [] = Inr []"
| "map_exn f (x # xs) =
     and_then (f x) (\<lambda>y. and_then (map_exn f xs) (\<lambda>ys. Inr (y # ys)))"

fun filter_exn :: "('a \<Rightarrow> exn + bool) \<Rightarrow> 'a list \<Rightarrow> exn + 'a list" where
  "filter_exn p [] = Inr []"
| "filter_exn p (x # xs) =
     and_then (p x) (\<lambda>b. and_then (filter_exn p xs) (\<lambda>ys. Inr (if b then x # ys else ys)))"

fun digits :: "nat \<Rightarrow> string" where
  "digits n =
     (if n < 10 then [''0123456789'' ! n]
      else digits (n div 10) @ [''0123456789'' ! (n mod 10)])"

declare digits.simps [simp del]

definition str_int :: "int \<Rightarrow> string" where
  "str_int i = (if i < 0 then CHR ''-'' # digits (nat (- i)) else digits (nat i))"

definition quoted :: "string \<Rightarrow> string" where
  "quoted s = CHR 0x27 # s @ [CHR 0x27]"

text \<open>\<^verbatim>\<open>f"{v}"\<close>: a str is inserted as it is, any other value through \<^verbatim>\<open>str\<close>.\<close>

definition fstr :: "pylib \<Rightarrow> json \<Rightarrow> string" where
  "fstr py v = (case v of JStr s \<Rightarrow> s | _ \<Rightarrow> str_of py v)"

text \<open>
  \<^verbatim>\<open>str(e)\<close>: the message of an \<open>Exception\<close> or of a transport failure, the \<open>repr\<close> of
  the key of a \<open>KeyError\<close> (the keys of the source are plain identifiers, and \<open>0\<close>).
\<close>

definition str_exn :: "pylib \<Rightarrow> exn \<Rightarrow> string" where
  "str_exn py e =
     (case e of
        Exception m \<Rightarrow> m
      | RequestException m \<Rightarrow> m
      | KeyError (JStr k) \<Rightarrow> quoted k
      | KeyError (JInt i) \<Rightarrow> str_int i
      | _ \<Rightarrow> exc_msg py e)"

text \<open>Truth value of a value, as \<^verbatim>\<open>if v:\<close> and \<^verbatim>\<open>not v\<close> read it.\<close>

definition truthy :: "json \<Rightarrow> bool" where
  "truthy v =
     (case v of
        JNull \<Rightarrow> False
      | JBool b \<Rightarrow> b
      | JInt i \<Rightarrow> i \<noteq> 0
      | JFloat r \<Rightarrow> r \<noteq> 0
      | JStr s \<Rightarrow> s \<noteq> []
      | JList xs \<Rightarrow> xs \<noteq> []
      | JObj kvs \<Rightarrow> kvs \<noteq> [])"

text \<open>\<^verbatim>\<open>d.get(k, default)\<close>: only a dict has the method.\<close>

definition dict_get :: "json \<Rightarrow> string \<Rightarrow> json \<Rightarrow> exn + json" where
  "dict_get d k dflt =
     (case d of
        JObj kvs \<Rightarrow> (case map_of kvs k of Some v \<Rightarrow> Inr v | None \<Rightarrow> Inr dflt)
      | _ \<Rightarrow> Inl AttributeError)"

text \<open>\<^verbatim>\<open>d[k]\<close> with a str key.\<close>

definition subscript :: "json \<Rightarrow> string \<Rightarrow> exn + json" where
  "subscript d k =
     (case d of
        JObj kvs \<Rightarrow> (case map_of kvs k of Some v \<Rightarrow> Inr v | None \<Rightarrow> Inl (KeyError (JStr k)))
      | _ \<Rightarrow> Inl TypeError)"

text \<open>\<^verbatim>\<open>xs[0]\<close>.\<close>

definition subscript0 :: "json \<Rightarrow> exn + json" where
  "subscript0 v =
     (case v of
        JList xs \<Rightarrow> (case xs of [] \<Rightarrow> Inl IndexError | x # _ \<Rightarrow> Inr x)
      | JStr s \<Rightarrow> (case s of [] \<Rightarrow> Inl IndexError | c # _ \<Rightarrow> Inr (JStr [c]))
      | JObj kvs \<Rightarrow> Inl (KeyError (JInt 0))
      | _ \<Rightarrow> Inl TypeError)"

text \<open>\<^verbatim>\<open>v[:100]\<close>.\<close>

definition slice100 :: "json \<Rightarrow> exn + json" where
  "slice100 v =
     (case v of
        JStr s \<Rightarrow> Inr (JStr (take 100 s))
      | JList xs \<Rightarrow> Inr (JList (take 100 xs))
      | _ \<Rightarrow> Inl TypeError)"

text \<open>\<^verbatim>\<open>len(v)\<close> and the elements \<^verbatim>\<open>for x in v\<close> visits.\<close>

definition py_len :: "json \<Rightarrow> exn + int" where
  "py_len v =
     (case v of
        JList xs \<Rightarrow> Inr (int (length xs))
      | JStr s \<Rightarrow> Inr (int (length s))
      | JObj kvs \<Rightarrow> Inr (int (length kvs))
      | _ \<Rightarrow> Inl TypeError)"

definition py_iter :: "json \<Rightarrow> exn + json list" where
  "py_iter v =
     (case v of
        JList xs \<Rightarrow> Inr xs
      | JStr s \<Rightarrow> Inr (map (\<lambda>c. JStr [c]) s)
      | JObj kvs \<Rightarrow> Inr (map (\<lambda>kv. JStr (fst kv)) kvs)
      | _ \<Rightarrow> Inl TypeError)"

text \<open>\<^verbatim>\<open>k in v\<close> for a str \<open>k\<close>: a key of a dict, an element of a list, a substring of a str.\<close>

definition contains :: "string \<Rightarrow> json \<Rightarrow> exn + bool" where
  "contains k v =
     (case v of
        JObj kvs \<Rightarrow> Inr (k \<in> set (map fst kvs))
      | JList xs \<Rightarrow> Inr (JStr k \<in> set xs)
      | JStr s \<Rightarrow> Inr (sublist k s)
      | _ \<Rightarrow> Inl TypeError)"

text \<open>\<^verbatim>\<open>v < 100\<close>: defined on numbers (a bool is the int 0 or 1).\<close>

definition less_100 :: "json \<Rightarrow> exn + bool" where
  "less_100 v =
     (case v of
        JInt i \<Rightarrow> Inr (i < 100)
      | JFloat r \<Rightarrow> Inr (r < 100)
      | JBool b \<Rightarrow> Inr True
      | _ \<Rightarrow> Inl TypeError)"

subsection \<open>Strings\<close>

text \<open>The characters \<^verbatim>\<open>str.strip()\<close> removes, among the code points below 256.\<close>

definition isspace :: "char \<Rightarrow> bool" where
  "isspace c =
     (of_char c \<in> {9, 10, 11, 12, 13, 28, 29, 30, 31, 32, 133, 160 :: nat})"

definition strip :: "string \<Rightarrow> string" where
  "strip s = rev (dropWhile isspace (rev (dropWhile isspace s)))"

definition startswith :: "string \<Rightarrow> string \<Rightarrow> bool" where
  "startswith s p = prefix p s"

definition endswith :: "string \<Rightarrow> string \<Rightarrow> bool" where
  "endswith s p = suffix p s"

text \<open>\<^verbatim>\<open>s.split(sep)[0]\<close>: the text before the first occurrence of \<open>sep\<close>.\<close>

fun before_sep :: "string \<Rightarrow> string \<Rightarrow> string" where
  "before_sep sep [] = []"
| "before_sep sep (c # cs) = (if prefix sep (c # cs) then [] else c # before_sep sep cs)"

text \<open>
  \<^verbatim>\<open>s.split(sep)[1]\<close> for an \<open>s\<close> that starts with \<open>sep\<close>: the text between the first
  and the second occurrence.
\<close>

definition split_second :: "string \<Rightarrow> string \<Rightarrow> string" where
  "split_second sep s = before_sep sep (drop (length sep) s)"

text \<open>\<^verbatim>\<open>sep.join(xs)\<close>.\<close>

fun join :: "string \<Rightarrow> string list \<Rightarrow> string" where
  "join sep [] = []"
| "join sep [x] = x"
| "join sep (x # y # ys) = x @ sep @ join sep (y # ys)"

section \<open>The remote services\<close>

text \<open>
  Every call of \<^verbatim>\<open>requests.get\<close>, \<^verbatim>\<open>requests.post\<close> and \<^verbatim>\<open>requests.patch\<close> is an
  exchange with a service outside the program. A request is what the call passes
  (\<^verbatim>\<open>headers=\<close>, \<^verbatim>\<open>params=\<close>, \<^verbatim>\<open>json=\<close>). Its outcome is either an exception of
  \<^verbatim>\<open>requests\<close> (the call did not complete) or a response: the status code and what
  \<^verbatim>\<open>response.json()\<close> returns (\<open>None\<close> when the body is not JSON and it raises).

  The services are a parameter \<open>net\<close>: the outcome of a request, given the requests issued
  before it. The state of the world the program changes is the list of requests it has
  issued, oldest first.
\<close>

datatype verb = GET | POST | PATCH

record request =
  rq_verb :: verb
  rq_url :: string
  rq_headers :: "(string \<times> string) list"
  rq_params :: "(string \<times> json) list"
  rq_json :: "json option"

datatype outcome =
    Failed string
  | Response int "json option"

type_synonym world = "request list"

type_synonym net = "request list \<Rightarrow> request \<Rightarrow> outcome"

text \<open>A computation that may raise and may issue requests.\<close>

type_synonym 'a io = "world \<Rightarrow> (exn + 'a) \<times> world"

definition io_of :: "exn + 'a \<Rightarrow> 'a io" where
  "io_of r w = (r, w)"

definition io_then :: "'a io \<Rightarrow> ('a \<Rightarrow> 'b io) \<Rightarrow> 'b io" where
  "io_then m f w =
     (case m w of
        (Inl e, w') \<Rightarrow> (Inl e, w')
      | (Inr x, w') \<Rightarrow> f x w')"

definition send :: "net \<Rightarrow> request \<Rightarrow> (int \<times> json option) io" where
  "send net rq w =
     (case net w rq of
        Failed m \<Rightarrow> (Inl (RequestException m), w @ [rq])
      | Response code body \<Rightarrow> (Inr (code, body), w @ [rq]))"

text \<open>\<^verbatim>\<open>response.json()\<close>.\<close>

definition response_json :: "json option \<Rightarrow> exn + json" where
  "response_json body = (case body of None \<Rightarrow> Inl JSONDecodeError | Some j \<Rightarrow> Inr j)"

section \<open>\<^verbatim>\<open>m365_client.py\<close>: class \<^verbatim>\<open>M365Client\<close>\<close>

text \<open>
  The client holds the bearer token \<^verbatim>\<open>_authenticate\<close> stored at construction (MSAL is
  outside the model). Arguments are values: \<open>JNull\<close> is \<^verbatim>\<open>None\<close>.
\<close>

record m365client =
  token :: string

definition get_headers :: "m365client \<Rightarrow> (string \<times> string) list" where
  "get_headers self =
     [(''Authorization'', ''Bearer '' @ token self),
      (''Content-Type'', ''application/json'')]"

definition error_result :: "string \<Rightarrow> json" where
  "error_result m = JObj [(''error'', JStr m)]"

subsection \<open>\<^verbatim>\<open>get_emails\<close>\<close>

text \<open>Lines 49 to 59: the query parameters.\<close>

definition get_emails_params :: "json \<Rightarrow> json \<Rightarrow> exn + (string \<times> json) list" where
  "get_emails_params limit filter_str =
     (let params = [(''$top'', limit), (''$orderby'', JStr ''receivedDateTime DESC'')] in
      if truthy filter_str then
        if filter_str = JStr ''unread'' then
          Inr (params @ [(''$filter'', JStr ''isRead eq false'')])
        else
          (case filter_str of
             JStr s \<Rightarrow>
               if startswith s ''from:'' then
                 (let email = strip (split_second ''from:'' s) in
                  Inr (params @
                    [(''$filter'', JStr (''from/emailAddress/address eq '' @ quoted email))]))
               else Inr params
           | _ \<Rightarrow> Inl AttributeError)
      else Inr params)"

text \<open>Lines 68 to 74: the summary of one message, its entries evaluated in order.\<close>

definition email_summary :: "json \<Rightarrow> exn + json" where
  "email_summary email =
     and_then (subscript email ''subject'') (\<lambda>subject.
     and_then (subscript email ''from'') (\<lambda>sender.
     and_then (subscript sender ''emailAddress'') (\<lambda>email_address.
     and_then (subscript email_address ''address'') (\<lambda>address.
     and_then (subscript email ''receivedDateTime'') (\<lambda>received.
     and_then (dict_get email ''bodyPreview'' (JStr [])) (\<lambda>body_preview.
     and_then (slice100 body_preview) (\<lambda>preview.
     and_then (subscript email ''isRead'') (\<lambda>is_read.
       Inr (JObj
         [(''subject'', subject),
          (''from'', address),
          (''received'', received),
          (''preview'', preview),
          (''is_read'', is_read)])))))))))"

definition emails_request :: "m365client \<Rightarrow> (string \<times> json) list \<Rightarrow> request" where
  "emails_request self params =
     \<lparr>rq_verb = GET, rq_url = ''https://graph.microsoft.com/v1.0/me/messages'',
      rq_headers = get_headers self, rq_params = params, rq_json = None\<rparr>"

definition get_emails :: "pylib \<Rightarrow> net \<Rightarrow> m365client \<Rightarrow> json \<Rightarrow> json \<Rightarrow> json io" where
  "get_emails py net self limit filter_str =
     io_then (io_of (get_emails_params limit filter_str)) (\<lambda>params.
     io_then (send net (emails_request self params))
       (\<lambda>(status_code, body).
          if status_code = 200 then
            io_of
              (and_then (response_json body) (\<lambda>j.
               and_then (dict_get j ''value'' (JList [])) (\<lambda>emails.
               and_then (py_len emails) (\<lambda>n.
               and_then (py_iter emails) (\<lambda>es.
               and_then (map_exn email_summary es) (\<lambda>summaries.
                 Inr (JObj [(''count'', JInt n), (''emails'', JList summaries)])))))))
          else
            io_of (Inr (error_result (''Failed to retrieve emails: '' @ str_int status_code)))))"

subsection \<open>\<^verbatim>\<open>send_email\<close>\<close>

text \<open>Lines 83 to 102: the request that sends the mail.\<close>

definition mail_request :: "m365client \<Rightarrow> json \<Rightarrow> json \<Rightarrow> json \<Rightarrow> request" where
  "mail_request self to subject body =
     (let email_data =
        JObj [(''message'', JObj
          [(''subject'', subject),
           (''body'', JObj [(''contentType'', JStr ''Text''), (''content'', body)]),
           (''toRecipients'',
              JList [JObj [(''emailAddress'', JObj [(''address'', to)])]])])] in
      \<lparr>rq_verb = POST, rq_url = ''https://graph.microsoft.com/v1.0/me/sendMail'',
       rq_headers = get_headers self, rq_params = [], rq_json = Some email_data\<rparr>)"

definition send_email :: "pylib \<Rightarrow> net \<Rightarrow> m365client \<Rightarrow> json \<Rightarrow> json \<Rightarrow> json \<Rightarrow> json io" where
  "send_email py net self to subject body =
     io_then (send net (mail_request self to subject body))
       (\<lambda>(status_code, _).
          if status_code = 202 then
            io_of (Inr (JObj
              [(''status'', JStr ''success''),
               (''message'', JStr (''Email sent to '' @ fstr py to))]))
          else
            io_of (Inr (error_result (''Failed to send email: '' @ str_int status_code))))"

subsection \<open>\<^verbatim>\<open>get_tasks\<close>\<close>

text \<open>Lines 141 to 145: the summary of one task.\<close>

definition task_summary :: "json \<Rightarrow> exn + json" where
  "task_summary task =
     and_then (subscript task ''id'') (\<lambda>task_id.
     and_then (subscript task ''title'') (\<lambda>title.
     and_then (subscript task ''percentComplete'') (\<lambda>percent_complete.
     and_then (dict_get task ''dueDateTime'' JNull) (\<lambda>due_date.
     and_then (dict_get task ''priority'' (JInt 5)) (\<lambda>priority.
       Inr (JObj
         [(''id'', task_id),
          (''title'', title),
          (''percent_complete'', percent_complete),
          (''due_date'', due_date),
          (''priority'', priority)]))))))"

text \<open>Line 134: the test of the comprehension that keeps the incomplete tasks.\<close>

definition incomplete :: "json \<Rightarrow> exn + bool" where
  "incomplete t = and_then (subscript t ''percentComplete'') less_100"

text \<open>Lines 125 to 151: the tasks of the plan, once \<open>plan_id\<close> is known.\<close>

definition tasks_request :: "pylib \<Rightarrow> m365client \<Rightarrow> json \<Rightarrow> request" where
  "tasks_request py self plan_id =
     \<lparr>rq_verb = GET,
      rq_url = ''https://graph.microsoft.com/v1.0/planner/plans/'' @ fstr py plan_id @ ''/tasks'',
      rq_headers = get_headers self, rq_params = [], rq_json = None\<rparr>"

definition get_plan_tasks :: "pylib \<Rightarrow> net \<Rightarrow> m365client \<Rightarrow> json \<Rightarrow> json \<Rightarrow> json io" where
  "get_plan_tasks py net self plan_id filter_str =
     io_then (send net (tasks_request py self plan_id))
       (\<lambda>(status_code, body).
          if status_code = 200 then
            io_of
              (and_then (response_json body) (\<lambda>j.
               and_then (dict_get j ''value'' (JList [])) (\<lambda>tasks.
               and_then
                 (if filter_str = JStr ''incomplete'' then
                    and_then (py_iter tasks) (\<lambda>ts.
                    and_then (filter_exn incomplete ts) (\<lambda>kept. Inr (JList kept)))
                  else Inr tasks) (\<lambda>tasks.
               and_then (py_len tasks) (\<lambda>n.
               and_then (py_iter tasks) (\<lambda>ts.
               and_then (map_exn task_summary ts) (\<lambda>summaries.
                 Inr (JObj
                   [(''count'', JInt n),
                    (''plan_id'', plan_id),
                    (''tasks'', JList summaries)]))))))))
          else
            io_of (Inr (error_result (''Failed to retrieve tasks: '' @ str_int status_code))))"

definition plans_request :: "m365client \<Rightarrow> request" where
  "plans_request self =
     \<lparr>rq_verb = GET, rq_url = ''https://graph.microsoft.com/v1.0/me/planner/plans'',
      rq_headers = get_headers self, rq_params = [], rq_json = None\<rparr>"

definition get_tasks :: "pylib \<Rightarrow> net \<Rightarrow> m365client \<Rightarrow> json \<Rightarrow> json \<Rightarrow> json io" where
  "get_tasks py net self plan_id filter_str =
     (if \<not> truthy plan_id then
        io_then (send net (plans_request self))
          (\<lambda>(status_code, body).
             if status_code \<noteq> 200 then
               io_of (Inr (error_result ''Failed to retrieve plans''))
             else
               io_then
                 (io_of (and_then (response_json body) (\<lambda>j. dict_get j ''value'' (JList []))))
                 (\<lambda>plans.
                    if \<not> truthy plans then io_of (Inr (error_result ''No plans found''))
                    else
                      io_then (io_of (and_then (subscript0 plans) (\<lambda>p. subscript p ''id'')))
                        (\<lambda>plan_id. get_plan_tasks py net self plan_id filter_str)))
      else get_plan_tasks py net self plan_id filter_str)"

subsection \<open>\<^verbatim>\<open>create_task\<close>\<close>

definition buckets_request :: "pylib \<Rightarrow> m365client \<Rightarrow> json \<Rightarrow> request" where
  "buckets_request py self plan_id =
     \<lparr>rq_verb = GET,
      rq_url = ''https://graph.microsoft.com/v1.0/planner/plans/'' @ fstr py plan_id @ ''/buckets'',
      rq_headers = get_headers self, rq_params = [], rq_json = None\<rparr>"

text \<open>Lines 169 to 179: the request that creates the task.\<close>

definition task_request :: "pylib \<Rightarrow> m365client \<Rightarrow> json \<Rightarrow> json \<Rightarrow> json \<Rightarrow> json \<Rightarrow> request" where
  "task_request py self plan_id bucket_id title due_date =
     (let task_data =
        [(''planId'', plan_id), (''bucketId'', bucket_id), (''title'', title)] @
        (if truthy due_date
         then [(''dueDateTime'', JStr (fstr py due_date @ ''T00:00:00Z''))] else []) in
      \<lparr>rq_verb = POST, rq_url = ''https://graph.microsoft.com/v1.0/planner/tasks'',
       rq_headers = get_headers self, rq_params = [], rq_json = Some (JObj task_data)\<rparr>)"

text \<open>Lines 186 to 190: the request that attaches the description.\<close>

definition details_request :: "pylib \<Rightarrow> m365client \<Rightarrow> json \<Rightarrow> json \<Rightarrow> request" where
  "details_request py self task_id description =
     \<lparr>rq_verb = PATCH,
      rq_url = ''https://graph.microsoft.com/v1.0/planner/tasks/'' @ fstr py task_id @ ''/details'',
      rq_headers = get_headers self, rq_params = [],
      rq_json = Some (JObj [(''description'', description)])\<rparr>"

definition create_task ::
  "pylib \<Rightarrow> net \<Rightarrow> m365client \<Rightarrow> json \<Rightarrow> json \<Rightarrow> json \<Rightarrow> json \<Rightarrow> json io" where
  "create_task py net self plan_id title description due_date =
     io_then (send net (buckets_request py self plan_id))
       (\<lambda>(status_code, body).
          if status_code \<noteq> 200 then io_of (Inr (error_result ''Failed to retrieve buckets''))
          else
            io_then
              (io_of (and_then (response_json body) (\<lambda>j. dict_get j ''value'' (JList []))))
              (\<lambda>buckets.
                 if \<not> truthy buckets then io_of (Inr (error_result ''No buckets found in plan''))
                 else
                   io_then (io_of (and_then (subscript0 buckets) (\<lambda>b. subscript b ''id'')))
                     (\<lambda>bucket_id.
                   io_then (send net (task_request py self plan_id bucket_id title due_date))
                     (\<lambda>(status_code, body).
                        if status_code = 201 then
                          io_then (io_of (response_json body)) (\<lambda>task.
                          io_then
                            (if truthy description then
                               io_then (io_of (subscript task ''id'')) (\<lambda>task_id.
                               io_then (send net (details_request py self task_id description))
                                 (\<lambda>_. io_of (Inr ())))
                             else io_of (Inr ()))
                            (\<lambda>_.
                          io_of
                            (and_then (subscript task ''id'') (\<lambda>task_id.
                             and_then (subscript task ''title'') (\<lambda>task_title.
                               Inr (JObj
                                 [(''status'', JStr ''success''),
                                  (''task_id'', task_id),
                                  (''title'', task_title)]))))))
                        else
                          io_of (Inr (error_result
                            (''Failed to create task: '' @ str_int status_code)))))))"

section \<open>\<^verbatim>\<open>ai_assistant_agent.py\<close>: class \<^verbatim>\<open>PersonalAssistant\<close>\<close>

text \<open>
  The fields \<^verbatim>\<open>__init__\<close> sets. A message of the conversation history is the dict the
  source builds, \<^verbatim>\<open>{"role": ..., "content": ...}\<close>. The tool catalogue is assigned once,
  from constants, and never changed: it is a constant here.
\<close>

record assistant =
  ollama_url :: string
  ollama_model :: string
  m365 :: m365client
  conversation_history :: "json list"

record tool =
  t_name :: string
  t_description :: string
  t_parameters :: "(string \<times> string) list"

definition tools :: "tool list" where
  "tools =
     [\<lparr>t_name = ''get_emails'',
       t_description = ''Retrieve emails from Outlook inbox. Returns list of recent emails.'',
       t_parameters =
         [(''limit'', ''Number of emails to retrieve (default 10)''),
          (''filter'',
           ''Filter criteria: 'unread' for unread emails, 'from:email@example.com' for specific sender'')]\<rparr>,
      \<lparr>t_name = ''send_email'',
       t_description = ''Send an email via Outlook'',
       t_parameters =
         [(''to'', ''Recipient email address (required)''),
          (''subject'', ''Email subject (required)''),
          (''body'', ''Email body content (required)'')]\<rparr>,
      \<lparr>t_name = ''get_tasks'',
       t_description = ''Retrieve tasks from Microsoft Planner'',
       t_parameters =
         [(''plan_id'', ''Planner plan ID (optional, will use first plan if not provided)''),
          (''filter'',
           ''Filter: 'incomplete' for incomplete tasks, 'due_soon' for tasks due soon'')]\<rparr>,
      \<lparr>t_name = ''create_task'',
       t_description = ''Create a new task in Microsoft Planner'',
       t_parameters =
         [(''plan_id'', ''Planner plan ID (required)''),
          (''title'', ''Task title (required)''),
          (''description'', ''Task description (optional)''),
          (''due_date'', ''Due date in YYYY-MM-DD format (optional)'')]\<rparr>]"

definition create_system_prompt :: string where
  \<open>create_system_prompt =
     (let tools_desc =
        join ''\<newline>'' (map (\<lambda>t. ''- '' @ t_name t @ '': '' @ t_description t) tools) in
      join ''\<newline>''
        [''You are a helpful personal assistant with access to Microsoft 365.'',
         ''You can help manage emails and Planner tasks.'',
         [],
         ''Available tools:'',
         tools_desc,
         [],
         ''When you need to use a tool, respond ONLY with a JSON object in this format:'',
         ''{"tool": "tool_name", "parameters": {"param1": "value1", "param2": "value2"}}'',
         [],
         ''If you don't need a tool, respond normally in a friendly, concise way.'',
         ''Format information clearly for CLI display.'',
         [],
         ''Examples:'',
         ''User: "Show me my emails"'',
         ''Assistant: {"tool": "get_emails", "parameters": {"limit": 10}}'',
         [],
         ''User: "What's the weather?"'',
         ''Assistant: I can help you with emails and tasks from Microsoft 365, but I don't have access to weather information.'',
         []])\<close>

definition message :: "string \<Rightarrow> json \<Rightarrow> json" where
  "message role content = JObj [(''role'', JStr role), (''content'', content)]"

text \<open>Lines 118 to 120 and 147 to 149: the system message, built anew, before the history.\<close>

definition with_system_prompt :: "json list \<Rightarrow> json list" where
  "with_system_prompt history = message ''system'' (JStr create_system_prompt) # history"

subsection \<open>\<^verbatim>\<open>_call_ollama\<close>\<close>

definition chat_request :: "assistant \<Rightarrow> json list \<Rightarrow> request" where
  "chat_request self messages =
     \<lparr>rq_verb = POST, rq_url = ollama_url self @ ''/api/chat'',
      rq_headers = [], rq_params = [],
      rq_json = Some (JObj
        [(''model'', JStr (ollama_model self)),
         (''messages'', JList messages),
         (''stream'', JBool False),
         (''options'', JObj [(''temperature'', JFloat 0.7)])])\<rparr>"

definition call_ollama :: "net \<Rightarrow> assistant \<Rightarrow> json list \<Rightarrow> json io" where
  "call_ollama net self messages =
     io_then (send net (chat_request self messages))
       (\<lambda>(status_code, body).
          if status_code = 200 then
            io_of
              (and_then (response_json body) (\<lambda>j.
               and_then (subscript j ''message'') (\<lambda>m. subscript m ''content'')))
          else io_of (Inl (Exception (''Ollama API error: '' @ str_int status_code))))"

subsection \<open>\<^verbatim>\<open>_is_tool_call\<close>\<close>

text \<open>
  \<^verbatim>\<open>text.strip()\<close> stands before the \<^verbatim>\<open>try\<close>: a response that is not a str raises.
  The bare \<^verbatim>\<open>except\<close> turns every failure of the parse and of the membership test
  into \<open>False\<close>.
\<close>

definition is_tool_call :: "pylib \<Rightarrow> json \<Rightarrow> exn + bool" where
  "is_tool_call py text =
     (case text of
        JStr s \<Rightarrow>
          (let text = strip s in
           if startswith text ''{'' \<and> endswith text ''}'' then
             (case loads py text of
                None \<Rightarrow> Inr False
              | Some data \<Rightarrow>
                  (case contains ''tool'' data of Inl e \<Rightarrow> Inr False | Inr b \<Rightarrow> Inr b))
           else Inr False)
      | _ \<Rightarrow> Inl AttributeError)"

subsection \<open>\<^verbatim>\<open>execute_tool\<close>\<close>

text \<open>
  The arguments of the client's operation are evaluated before it is called, inside the
  \<^verbatim>\<open>try\<close>; \<^verbatim>\<open>except Exception as e: return {"error": str(e)}\<close> (\<open>or_error_result\<close>)
  turns whatever is raised, there or in the operation, into an error result. The function
  itself never raises.
\<close>

definition or_error_result :: "pylib \<Rightarrow> json io \<Rightarrow> world \<Rightarrow> json \<times> world" where
  "or_error_result py m w =
     (case m w of
        (Inl e, w') \<Rightarrow> (error_result (str_exn py e), w')
      | (Inr r, w') \<Rightarrow> (r, w'))"

definition execute_tool ::
  "pylib \<Rightarrow> net \<Rightarrow> assistant \<Rightarrow> json \<Rightarrow> json \<Rightarrow> world \<Rightarrow> json \<times> world" where
  "execute_tool py net self function_name arguments =
     or_error_result py
       (if function_name = JStr ''get_emails'' then
          io_then (io_of (dict_get arguments ''limit'' (JInt 10))) (\<lambda>limit.
          io_then (io_of (dict_get arguments ''filter'' JNull)) (\<lambda>filter_str.
            get_emails py net (m365 self) limit filter_str))
        else if function_name = JStr ''send_email'' then
          io_then (io_of (subscript arguments ''to'')) (\<lambda>to.
          io_then (io_of (subscript arguments ''subject'')) (\<lambda>subject.
          io_then (io_of (subscript arguments ''body'')) (\<lambda>body.
            send_email py net (m365 self) to subject body)))
        else if function_name = JStr ''get_tasks'' then
          io_then (io_of (dict_get arguments ''plan_id'' JNull)) (\<lambda>plan_id.
          io_then (io_of (dict_get arguments ''filter'' JNull)) (\<lambda>filter_str.
            get_tasks py net (m365 self) plan_id filter_str))
        else if function_name = JStr ''create_task'' then
          io_then (io_of (subscript arguments ''plan_id'')) (\<lambda>plan_id.
          io_then (io_of (subscript arguments ''title'')) (\<lambda>title.
          io_then (io_of (dict_get arguments ''description'' JNull)) (\<lambda>description.
          io_then (io_of (dict_get arguments ''due_date'' JNull)) (\<lambda>due_date.
            create_task py net (m365 self) plan_id title description due_date))))
        else
          io_of (Inr (error_result (''Unknown function: '' @ fstr py function_name))))"

subsection \<open>\<^verbatim>\<open>process_request\<close>\<close>

text \<open>
  A turn ends with the value returned or the exception raised, the assistant as the turn
  left it (the history is changed in place, so what was appended before an exception
  stays), and the world.
\<close>

type_synonym turn = "(exn + json) \<times> assistant \<times> world"

definition append_message :: "assistant \<Rightarrow> json \<Rightarrow> assistant" where
  "append_message self m =
     self\<lparr>conversation_history := conversation_history self @ [m]\<rparr>"

text \<open>Lines 164 to 170: the normal response.\<close>

definition normal_response :: "assistant \<Rightarrow> json \<Rightarrow> world \<Rightarrow> turn" where
  "normal_response self response_text w =
     (Inr response_text, append_message self (message ''assistant'' response_text), w)"

definition tool_marker :: "pylib \<Rightarrow> json \<Rightarrow> json" where
  "tool_marker py tool_name =
     message ''assistant'' (JStr (''[Used tool: '' @ fstr py tool_name @ '']''))"

definition tool_result_message :: "pylib \<Rightarrow> json \<Rightarrow> json" where
  "tool_result_message py tool_result =
     message ''user'' (JStr (''Tool result: '' @ dumps py tool_result @
       ''\<newline>\<newline>Please summarize this information in a clear, friendly way for the user.''))"

text \<open>
  Lines 127 to 162: the body of the \<^verbatim>\<open>try\<close>. Only \<^verbatim>\<open>json.JSONDecodeError\<close> is caught,
  wherever in the body it is raised; the handler falls through to the normal response.
\<close>

definition tool_turn :: "pylib \<Rightarrow> net \<Rightarrow> assistant \<Rightarrow> json \<Rightarrow> world \<Rightarrow> turn" where
  "tool_turn py net self response_text w =
     (case response_text of
        JStr s \<Rightarrow>
          (case loads py s of
             None \<Rightarrow> normal_response self response_text w
           | Some tool_call \<Rightarrow>
               (case and_then (dict_get tool_call ''tool'' JNull) (\<lambda>tool_name.
                     and_then (dict_get tool_call ''parameters'' (JObj [])) (\<lambda>parameters.
                       Inr (tool_name, parameters))) of
                  Inl e \<Rightarrow> (Inl e, self, w)
                | Inr (tool_name, parameters) \<Rightarrow>
                    (case execute_tool py net self tool_name parameters w of
                       (tool_result, w1) \<Rightarrow>
                         (let self1 = append_message self (tool_marker py tool_name);
                              self2 = append_message self1 (tool_result_message py tool_result);
                              messages = with_system_prompt (conversation_history self2) in
                          case call_ollama net self2 messages w1 of
                            (Inr final_response, w2) \<Rightarrow>
                              (Inr final_response,
                               append_message self2 (message ''assistant'' final_response), w2)
                          | (Inl e, w2) \<Rightarrow>
                              if e = JSONDecodeError then normal_response self2 response_text w2
                              else (Inl e, self2, w2)))))
      | _ \<Rightarrow> (Inl TypeError, self, w))"

definition process_request :: "pylib \<Rightarrow> net \<Rightarrow> assistant \<Rightarrow> string \<Rightarrow> world \<Rightarrow> turn" where
  "process_request py net self user_input w =
     (let self0 = append_message self (message ''user'' (JStr user_input));
          messages = with_system_prompt (conversation_history self0) in
      case call_ollama net self0 messages w of
        (Inl e, w0) \<Rightarrow> (Inl e, self0, w0)
      | (Inr response_text, w0) \<Rightarrow>
          (case is_tool_call py response_text of
             Inl e \<Rightarrow> (Inl e, self0, w0)
           | Inr b \<Rightarrow>
               if b then tool_turn py net self0 response_text w0
               else normal_response self0 response_text w0))"

section \<open>Concrete scenarios\<close>

text \<open>
  Instances of the parameters, for the examples below. A scripted service answers the
  n-th request with the n-th outcome of a list, and refuses the connection afterwards.
  A table library parses and prints the texts of a finite table, as Python does on them;
  the examples consult it on nothing else (no \<^verbatim>\<open>str\<close> of a value that is not a str, no
  message of an exception the interpreter raises).
\<close>

definition scripted :: "outcome list \<Rightarrow> net" where
  "scripted script w rq =
     (if length w < length script then script ! length w else Failed ''Connection refused'')"

definition chat_reply :: "json \<Rightarrow> outcome" where
  "chat_reply content =
     Response 200 (Some (JObj
       [(''model'', JStr ''llama3.1''),
        (''message'', JObj [(''role'', JStr ''assistant''), (''content'', content)]),
        (''done'', JBool True)]))"

definition table_py :: "(string \<times> json) list \<Rightarrow> (json \<times> string) list \<Rightarrow> pylib" where
  "table_py parsed printed =
     \<lparr>loads = map_of parsed,
      dumps = (\<lambda>v. case map_of printed v of Some s \<Rightarrow> s | None \<Rightarrow> []),
      str_of = (\<lambda>v. []),
      exc_msg = (\<lambda>e. [])\<rparr>"

definition demo_assistant :: assistant where
  "demo_assistant =
     \<lparr>ollama_url = ''http://localhost:11434'', ollama_model = ''llama3.1'',
      m365 = \<lparr>token = ''secret''\<rparr>, conversation_history = []\<rparr>"

definition one_bucket :: outcome where
  "one_bucket = Response 200 (Some (JObj [(''value'', JList [JObj [(''id'', JStr ''B1'')]])]))"

definition task_created :: outcome where
  "task_created = Response 201 (Some (JObj [(''id'', JStr ''T1''), (''title'', JStr ''X'')]))"

definition two_plans :: outcome where
  "two_plans =
     Response 200 (Some (JObj
       [(''value'', JList [JObj [(''id'', JStr ''P1''), (''title'', JStr ''Work'')],
                           JObj [(''id'', JStr ''P2''), (''title'', JStr ''Home'')]])]))"

definition demo_task :: "string \<Rightarrow> string \<Rightarrow> int \<Rightarrow> json" where
  "demo_task task_id title percent =
     JObj [(''id'', JStr task_id), (''title'', JStr title), (''percentComplete'', JInt percent)]"

definition three_tasks :: outcome where
  "three_tasks =
     Response 200 (Some (JObj
       [(''value'', JList [demo_task ''T1'' ''Write report'' 100,
                           demo_task ''T2'' ''Review budget'' 50,
                           demo_task ''T3'' ''Book room'' 0])]))"

definition foo_call :: string where
  \<open>foo_call = ''{"tool": "foo", "parameters": {"x": 1}}''\<close>

definition foo_py :: pylib where
  \<open>foo_py =
     table_py
       [(foo_call, JObj [(''tool'', JStr ''foo''), (''parameters'', JObj [(''x'', JInt 1)])])]
       [(JObj [(''error'', JStr ''Unknown function: foo'')],
         ''{\<newline>  "error": "Unknown function: foo"\<newline>}'')]\<close>

definition send_call :: string where
  \<open>send_call =
     ''{"tool": "send_email", "parameters": {"to": "ann@example.com", "subject": "Hello", "body": "Hi Ann"}}''\<close>

definition send_py :: pylib where
  \<open>send_py =
     table_py
       [(send_call,
         JObj [(''tool'', JStr ''send_email''),
               (''parameters'', JObj [(''to'', JStr ''ann@example.com''),
                                      (''subject'', JStr ''Hello''),
                                      (''body'', JStr ''Hi Ann'')])])]
       [(JObj [(''status'', JStr ''success''),
               (''message'', JStr ''Email sent to ann@example.com'')],
         ''{\<newline>  "status": "success",\<newline>  "message": "Email sent to ann@example.com"\<newline>}'')]\<close>

definition bare_send_call :: string where
  \<open>bare_send_call = ''{"tool": "send_email", "parameters": {}}''\<close>

definition bare_send_py :: pylib where
  \<open>bare_send_py =
     table_py
       [(bare_send_call, JObj [(''tool'', JStr ''send_email''), (''parameters'', JObj [])])]
       [(JObj [(''error'', JStr (quoted ''to''))],
         ''{\<newline>  "error": "'to'"\<newline>}'')]\<close>

text \<open>
  A property of every request a computation issues: from any world, the computation only
  appends requests, each of which satisfies \<open>P\<close>.
\<close>

definition issues :: "(request \<Rightarrow> bool) \<Rightarrow> 'a io \<Rightarrow> bool" where
  "issues P m = (\<forall>w. \<exists>rs. snd (m w) = w @ rs \<and> list_all P rs)"

definition send_net :: net where
  "send_net =
     scripted [chat_reply (JStr send_call), Response 202 None,
               chat_reply (JStr ''Your email to Ann was sent.'')]"

definition send_history :: "json list" where
  \<open>send_history =
     [message ''user'' (JStr ''Write to Ann''),
      message ''assistant'' (JStr ''[Used tool: send_email]''),
      message ''user'' (JStr (''Tool result: '' @
        ''{\<newline>  "status": "success",\<newline>  "message": "Email sent to ann@example.com"\<newline>}'' @
        ''\<newline>\<newline>Please summarize this information in a clear, friendly way for the user.''))]\<close>

section \<open>Basic facts\<close>

lemma and_then_Inl [simp]: "and_then (Inl e) f = Inl e"
  by (simp add: and_then_def)

lemma and_then_Inr [simp]: "and_then (Inr x) f = f x"
  by (simp add: and_then_def)

lemma io_of_apply [simp]: "io_of r w = (r, w)"
  by (simp add: io_of_def)

lemma io_then_Inr [simp]: "m w = (Inr x, w') \<Longrightarrow> io_then m f w = f x w'"
  by (simp add: io_then_def)

lemma io_then_Inl [simp]: "m w = (Inl e, w') \<Longrightarrow> io_then m f w = (Inl e, w')"
  by (simp add: io_then_def)

lemma send_Response [simp]:
  "net w rq = Response c b \<Longrightarrow> send net rq w = (Inr (c, b), w @ [rq])"
  by (simp add: send_def)

lemma send_Failed [simp]:
  "net w rq = Failed m \<Longrightarrow> send net rq w = (Inl (RequestException m), w @ [rq])"
  by (simp add: send_def)

lemma send_world: "send net rq w = (r, w') \<Longrightarrow> w' = w @ [rq]"
  by (auto simp: send_def split: outcome.splits)

lemma call_ollama_world:
  "call_ollama net self ms w = (r, w') \<Longrightarrow> w' = w @ [chat_request self ms]"
  by (cases "net w (chat_request self ms)") (auto simp: call_ollama_def split: if_splits)

lemma chat_request_append_message [simp]:
  "chat_request (append_message self m) ms = chat_request self ms"
  by (simp add: chat_request_def append_message_def)

lemma call_ollama_append_message [simp]:
  "call_ollama net (append_message self m) ms = call_ollama net self ms"
  by (simp add: call_ollama_def)

lemma history_append_message [simp]:
  "conversation_history (append_message self m) = conversation_history self @ [m]"
  by (simp add: append_message_def)

lemma call_ollama_reply:
  "net w (chat_request self ms) = chat_reply c \<Longrightarrow>
   call_ollama net self ms w = (Inr c, w @ [chat_request self ms])"
  by (simp add: call_ollama_def chat_reply_def response_json_def subscript_def)

lemma is_tool_call_JStr:
  "is_tool_call py (JStr R) =
     Inr (startswith (strip R) ''{'' \<and> endswith (strip R) ''}'' \<and>
          (\<exists>data. loads py (strip R) = Some data \<and> contains ''tool'' data = Inr True))"
  by (auto simp: is_tool_call_def Let_def split: option.splits sum.splits)

lemma contains_JObj: "contains k (JObj kvs) = Inr (k \<in> fst ` set kvs)"
  by (simp add: contains_def)

section \<open>Facts about the client and the turn\<close>

lemma str_int_503: "str_int 503 = ''503''"
  by (simp add: str_int_def digits.simps)

lemma append_message_twice:
  "append_message (append_message self a) b =
     self\<lparr>conversation_history := conversation_history self @ [a, b]\<rparr>"
  by (simp add: append_message_def)

lemma process_request_normal:
  assumes "call_ollama net self
             (with_system_prompt (conversation_history self @ [message ''user'' (JStr user_input)])) w
           = (Inr (JStr R), w0)"
      and "is_tool_call py (JStr R) = Inr False \<or> loads py R = None"
  shows "process_request py net self user_input w =
           (Inr (JStr R),
            self\<lparr>conversation_history := conversation_history self @
               [message ''user'' (JStr user_input), message ''assistant'' (JStr R)]\<rparr>, w0)"
  using assms
  by (auto simp: process_request_def Let_def tool_turn_def normal_response_def
        append_message_twice is_tool_call_JStr)

lemma str_exn_RequestException [simp]: "str_exn py (RequestException m) = m"
  by (simp add: str_exn_def)

lemma get_emails_status:
  assumes "get_emails_params limit filter_str = Inr params"
      and "net w (emails_request self params) = Response c b" and "c \<noteq> 200"
  shows "get_emails py net self limit filter_str w =
           (Inr (error_result (''Failed to retrieve emails: '' @ str_int c)),
            w @ [emails_request self params])"
  using assms by (simp add: get_emails_def)

lemma send_email_status:
  assumes "net w (mail_request self to subject body) = Response c b" and "c \<noteq> 202"
  shows "send_email py net self to subject body w =
           (Inr (error_result (''Failed to send email: '' @ str_int c)),
            w @ [mail_request self to subject body])"
  using assms by (simp add: send_email_def)

lemma get_tasks_plans_status:
  assumes "\<not> truthy plan_id"
      and "net w (plans_request self) = Response c b" and "c \<noteq> 200"
  shows "get_tasks py net self plan_id filter_str w =
           (Inr (error_result ''Failed to retrieve plans''), w @ [plans_request self])"
  using assms by (simp add: get_tasks_def)

lemma get_plan_tasks_status:
  assumes "net w (tasks_request py self plan_id) = Response c b" and "c \<noteq> 200"
  shows "get_plan_tasks py net self plan_id filter_str w =
           (Inr (error_result (''Failed to retrieve tasks: '' @ str_int c)),
            w @ [tasks_request py self plan_id])"
  using assms by (simp add: get_plan_tasks_def)

lemma get_tasks_first_plan:
  assumes "\<not> truthy plan_id"
      and "net w (plans_request self) = Response 200 (Some j)"
      and "dict_get j ''value'' (JList []) = Inr plans"
      and "truthy plans"
      and "and_then (subscript0 plans) (\<lambda>p. subscript p ''id'') = Inr first_id"
  shows "get_tasks py net self plan_id filter_str w =
           get_plan_tasks py net self first_id filter_str (w @ [plans_request self])"
  using assms by (simp add: get_tasks_def response_json_def)

lemma get_tasks_given_plan:
  "truthy plan_id \<Longrightarrow>
   get_tasks py net self plan_id filter_str = get_plan_tasks py net self plan_id filter_str"
  by (simp add: get_tasks_def)

lemma create_task_buckets_status:
  assumes "net w (buckets_request py self plan_id) = Response c b" and "c \<noteq> 200"
  shows "create_task py net self plan_id title description due_date w =
           (Inr (error_result ''Failed to retrieve buckets''),
            w @ [buckets_request py self plan_id])"
  using assms by (simp add: create_task_def)

lemma create_task_post_status:
  assumes "net w (buckets_request py self plan_id) = Response 200 (Some j)"
      and "dict_get j ''value'' (JList []) = Inr buckets"
      and "truthy buckets"
      and "and_then (subscript0 buckets) (\<lambda>b. subscript b ''id'') = Inr bucket_id"
      and "net (w @ [buckets_request py self plan_id])
             (task_request py self plan_id bucket_id title due_date) = Response c b"
      and "c \<noteq> 201"
  shows "create_task py net self plan_id title description due_date w =
           (Inr (error_result (''Failed to create task: '' @ str_int c)),
            w @ [buckets_request py self plan_id,
                 task_request py self plan_id bucket_id title due_date])"
  using assms by (simp add: create_task_def response_json_def)

lemma get_emails_transport:
  assumes "get_emails_params limit filter_str = Inr params"
      and "net w (emails_request self params) = Failed m"
  shows "get_emails py net self limit filter_str w =
           (Inl (RequestException m), w @ [emails_request self params])"
  using assms by (simp add: get_emails_def)

lemma send_email_transport:
  assumes "net w (mail_request self to subject body) = Failed m"
  shows "send_email py net self to subject body w =
           (Inl (RequestException m), w @ [mail_request self to subject body])"
  using assms by (simp add: send_email_def)

lemma get_tasks_transport:
  assumes "net w (if truthy plan_id then tasks_request py self plan_id else plans_request self)
             = Failed m"
  shows "get_tasks py net self plan_id filter_str w =
           (Inl (RequestException m),
            w @ [if truthy plan_id then tasks_request py self plan_id else plans_request self])"
  using assms by (simp add: get_tasks_def get_plan_tasks_def split: if_splits)

lemma create_task_transport:
  assumes "net w (buckets_request py self plan_id) = Failed m"
  shows "create_task py net self plan_id title description due_date w =
           (Inl (RequestException m), w @ [buckets_request py self plan_id])"
  using assms by (simp add: create_task_def)

lemma get_tasks_tasks_transport:
  assumes "\<not> truthy plan_id"
      and "net w (plans_request self) = Response 200 (Some j)"
      and "dict_get j ''value'' (JList []) = Inr plans"
      and "truthy plans"
      and "and_then (subscript0 plans) (\<lambda>p. subscript p ''id'') = Inr first_id"
      and "net (w @ [plans_request self]) (tasks_request py self first_id) = Failed m"
  shows "get_tasks py net self plan_id filter_str w =
           (Inl (RequestException m), w @ [plans_request self, tasks_request py self first_id])"
  using assms by (simp add: get_tasks_def response_json_def get_plan_tasks_def)

lemma create_task_post_transport:
  assumes "net w (buckets_request py self plan_id) = Response 200 (Some j)"
      and "dict_get j ''value'' (JList []) = Inr buckets"
      and "truthy buckets"
      and "and_then (subscript0 buckets) (\<lambda>b. subscript b ''id'') = Inr bucket_id"
      and "net (w @ [buckets_request py self plan_id])
             (task_request py self plan_id bucket_id title due_date) = Failed m"
  shows "create_task py net self plan_id title description due_date w =
           (Inl (RequestException m),
            w @ [buckets_request py self plan_id,
                 task_request py self plan_id bucket_id title due_date])"
  using assms by (simp add: create_task_def response_json_def)

lemma create_task_patch_transport:
  assumes "net w (buckets_request py self plan_id) = Response 200 (Some j)"
      and "dict_get j ''value'' (JList []) = Inr buckets"
      and "truthy buckets"
      and "and_then (subscript0 buckets) (\<lambda>b. subscript b ''id'') = Inr bucket_id"
      and "net (w @ [buckets_request py self plan_id])
             (task_request py self plan_id bucket_id title due_date) = Response 201 (Some task)"
      and "subscript task ''id'' = Inr task_id"
      and "truthy description"
      and "net (w @ [buckets_request py self plan_id,
                     task_request py self plan_id bucket_id title due_date])
             (details_request py self task_id description) = Failed m"
  shows "create_task py net self plan_id title description due_date w =
           (Inl (RequestException m),
            w @ [buckets_request py self plan_id,
                 task_request py self plan_id bucket_id title due_date,
                 details_request py self task_id description])"
  using assms by (simp add: create_task_def response_json_def)

lemma str_int_404: "str_int 404 = ''404''"
  by (simp add: str_int_def digits.simps)

lemma str_int_403: "str_int 403 = ''403''"
  by (simp add: str_int_def digits.simps)

lemma str_int_400: "str_int 400 = ''400''"
  by (simp add: str_int_def digits.simps)

lemma filter_exn_incomplete:
  assumes "\<forall>t\<in>set ts. \<exists>i. subscript t ''percentComplete'' = Inr (JInt i)"
  shows "filter_exn incomplete ts =
           Inr (filter (\<lambda>t. \<exists>i. subscript t ''percentComplete'' = Inr (JInt i) \<and> i < 100) ts)"
  using assms
proof (induction ts)
  case Nil
  then show ?case by simp
next
  case (Cons t ts)
  then obtain i where i: "subscript t ''percentComplete'' = Inr (JInt i)"
    by auto
  have "incomplete t = Inr (i < 100)"
    by (simp add: incomplete_def i less_100_def)
  with Cons i show ?case by simp
qed

lemma map_exn_task_summary:
  assumes "\<forall>t\<in>set ts. \<exists>kvs. t = JObj kvs \<and> map_of kvs ''id'' \<noteq> None \<and>
             map_of kvs ''title'' \<noteq> None \<and> map_of kvs ''percentComplete'' \<noteq> None"
  shows "\<exists>summaries. map_exn task_summary ts = Inr summaries"
  using assms
proof (induction ts)
  case Nil
  then show ?case by simp
next
  case (Cons t ts)
  then obtain kvs a b c where t: "t = JObj kvs" "map_of kvs ''id'' = Some a"
      "map_of kvs ''title'' = Some b" "map_of kvs ''percentComplete'' = Some c"
    by auto
  have "\<exists>s. task_summary t = Inr s"
    by (simp add: task_summary_def subscript_def dict_get_def t split: option.splits)
  moreover from Cons obtain summaries where "map_exn task_summary ts = Inr summaries"
    by auto
  ultimately show ?case by auto
qed

lemma get_plan_tasks_incomplete:
  assumes "net w (tasks_request py self plan_id) = Response 200 (Some j)"
      and "dict_get j ''value'' (JList []) = Inr (JList ts)"
      and wf: "\<forall>t\<in>set ts. \<exists>kvs i. t = JObj kvs \<and> map_of kvs ''id'' \<noteq> None \<and>
             map_of kvs ''title'' \<noteq> None \<and> map_of kvs ''percentComplete'' = Some (JInt i)"
      and "kept = filter (\<lambda>t. \<exists>i. subscript t ''percentComplete'' = Inr (JInt i) \<and> i < 100) ts"
  shows "\<exists>summaries. map_exn task_summary kept = Inr summaries \<and>
           get_plan_tasks py net self plan_id (JStr ''incomplete'') w =
             (Inr (JObj [(''count'', JInt (int (length kept))), (''plan_id'', plan_id),
                         (''tasks'', JList summaries)]),
              w @ [tasks_request py self plan_id])"
proof -
  have 1: "\<forall>t\<in>set ts. \<exists>i. subscript t ''percentComplete'' = Inr (JInt i)"
    using wf by (fastforce simp: subscript_def)
  have 2: "filter_exn incomplete ts = Inr kept"
    using filter_exn_incomplete [OF 1] assms(4) by simp
  have "\<forall>t\<in>set kept. \<exists>kvs. t = JObj kvs \<and> map_of kvs ''id'' \<noteq> None \<and>
             map_of kvs ''title'' \<noteq> None \<and> map_of kvs ''percentComplete'' \<noteq> None"
    using wf assms(4) by fastforce
  then obtain summaries where 3: "map_exn task_summary kept = Inr summaries"
    using map_exn_task_summary by blast
  have "get_plan_tasks py net self plan_id (JStr ''incomplete'') w =
             (Inr (JObj [(''count'', JInt (int (length kept))), (''plan_id'', plan_id),
                         (''tasks'', JList summaries)]),
              w @ [tasks_request py self plan_id])"
    using assms(1,2) 2 3
    by (simp add: get_plan_tasks_def response_json_def py_iter_def py_len_def)
  with 3 show ?thesis by blast
qed

lemma chat_request_history [simp]:
  "chat_request (self\<lparr>conversation_history := h\<rparr>) ms = chat_request self ms"
  by (simp add: chat_request_def)

lemma call_ollama_history [simp]:
  "call_ollama net (self\<lparr>conversation_history := h\<rparr>) ms = call_ollama net self ms"
  by (simp add: call_ollama_def)

lemma execute_tool_history [simp]:
  "execute_tool py net (self\<lparr>conversation_history := h\<rparr>) = execute_tool py net self"
  by (simp add: execute_tool_def fun_eq_iff)

text \<open>The turn on the tool path, up to the outcome of the second completion call.\<close>

lemma process_request_tool:
  assumes first: "call_ollama net self
             (with_system_prompt (conversation_history self @ [message ''user'' (JStr user_input)])) w
           = (Inr (JStr R), w0)"
      and cand: "is_tool_call py (JStr R) = Inr True"
      and parsed: "loads py R = Some (JObj tool_call)"
      and name: "dict_get (JObj tool_call) ''tool'' JNull = Inr tool_name"
      and params: "dict_get (JObj tool_call) ''parameters'' (JObj []) = Inr parameters"
      and exec: "execute_tool py net self tool_name parameters w0 = (tool_result, w1)"
      and hist: "hist = conversation_history self @
                 [message ''user'' (JStr user_input), tool_marker py tool_name,
                  tool_result_message py tool_result]"
  shows "process_request py net self user_input w =
           (case call_ollama net self (with_system_prompt hist) w1 of
              (Inr final_response, w2) \<Rightarrow>
                (Inr final_response,
                 self\<lparr>conversation_history := hist @ [message ''assistant'' final_response]\<rparr>, w2)
            | (Inl e, w2) \<Rightarrow>
                if e = JSONDecodeError
                then (Inr (JStr R),
                      self\<lparr>conversation_history := hist @ [message ''assistant'' (JStr R)]\<rparr>, w2)
                else (Inl e, self\<lparr>conversation_history := hist\<rparr>, w2))"
  using assms
  by (simp add: process_request_def tool_turn_def Let_def normal_response_def
        append_message_def split: prod.splits sum.splits)

lemma execute_tool_unknown:
  assumes "tool_name \<notin> {''get_emails'', ''send_email'', ''get_tasks'', ''create_task''}"
  shows "execute_tool py net self (JStr tool_name) arguments w =
           (error_result (''Unknown function: '' @ tool_name), w)"
  using assms by (simp add: execute_tool_def or_error_result_def fstr_def)

lemma strip_foo_call: "strip foo_call = foo_call"
  by (simp add: foo_call_def strip_def isspace_def)

lemma io_then_io_of_Inr [simp]: "io_then (io_of (Inr x)) f = f x"
  by (simp add: fun_eq_iff)

lemma io_then_io_of_Inl [simp]: "io_then (io_of (Inl e)) f = io_of (Inl e)"
  by (simp add: fun_eq_iff)

lemma execute_tool_get_emails:
  "execute_tool py net self (JStr ''get_emails'') (JObj ps) =
     or_error_result py
       (get_emails py net (m365 self)
          (case map_of ps ''limit'' of None \<Rightarrow> JInt 10 | Some v \<Rightarrow> v)
          (case map_of ps ''filter'' of None \<Rightarrow> JNull | Some v \<Rightarrow> v))"
  by (simp add: execute_tool_def dict_get_def split: option.splits)

lemma execute_tool_send_email:
  assumes "map_of ps ''to'' = Some to" "map_of ps ''subject'' = Some subject"
      and "map_of ps ''body'' = Some body"
  shows "execute_tool py net self (JStr ''send_email'') (JObj ps) =
           or_error_result py (send_email py net (m365 self) to subject body)"
  using assms by (simp add: execute_tool_def subscript_def)

lemma execute_tool_get_tasks:
  "execute_tool py net self (JStr ''get_tasks'') (JObj ps) =
     or_error_result py
       (get_tasks py net (m365 self)
          (case map_of ps ''plan_id'' of None \<Rightarrow> JNull | Some v \<Rightarrow> v)
          (case map_of ps ''filter'' of None \<Rightarrow> JNull | Some v \<Rightarrow> v))"
  by (simp add: execute_tool_def dict_get_def split: option.splits)

lemma execute_tool_create_task:
  assumes "map_of ps ''plan_id'' = Some plan_id" "map_of ps ''title'' = Some title"
  shows "execute_tool py net self (JStr ''create_task'') (JObj ps) =
           or_error_result py
             (create_task py net (m365 self) plan_id title
                (case map_of ps ''description'' of None \<Rightarrow> JNull | Some v \<Rightarrow> v)
                (case map_of ps ''due_date'' of None \<Rightarrow> JNull | Some v \<Rightarrow> v))"
  using assms by (simp add: execute_tool_def subscript_def dict_get_def split: option.splits)

lemma strip_send_call: "strip send_call = send_call"
  by (simp add: send_call_def strip_def isspace_def)

lemma strip_bare_send_call: "strip bare_send_call = bare_send_call"
  by (simp add: bare_send_call_def strip_def isspace_def)

lemma issues_io_of: "issues P (io_of x)"
  by (simp add: issues_def)

lemma issues_send: "P rq \<Longrightarrow> issues P (send net rq)"
  by (auto simp: issues_def send_def split: outcome.splits)

lemma issues_io_then:
  assumes "issues P m" and "\<And>x. issues P (f x)"
  shows "issues P (io_then m f)"
  unfolding issues_def
proof
  fix w
  obtain rs where rs: "snd (m w) = w @ rs" "list_all P rs"
    using assms(1) by (auto simp: issues_def)
  show "\<exists>rs. snd (io_then m f w) = w @ rs \<and> list_all P rs"
  proof (cases "m w")
    case (Pair r w')
    show ?thesis
    proof (cases r)
      case (Inl e)
      with Pair rs show ?thesis by (auto simp: io_then_def)
    next
      case (Inr x)
      obtain rs' where "snd (f x w') = w' @ rs'" "list_all P rs'"
        using assms(2) [of x] by (auto simp: issues_def)
      with Pair Inr rs show ?thesis
        by (auto simp: io_then_def intro!: exI [of _ "rs @ rs'"])
    qed
  qed
qed

lemma issues_if: "issues P a \<Longrightarrow> issues P b \<Longrightarrow> issues P (if c then a else b)"
  by simp

lemma issues_case_prod: "(\<And>a b. issues P (f a b)) \<Longrightarrow> issues P (case x of (a, b) \<Rightarrow> f a b)"
  by (cases x) simp

lemmas issues_intros =
  issues_io_then issues_io_of issues_send issues_if issues_case_prod

lemma issues_get_emails:
  "issues (\<lambda>rq. rq_headers rq = get_headers self) (get_emails py net self limit filter_str)"
  unfolding get_emails_def
  by (intro issues_intros) (simp add: emails_request_def)

lemma issues_send_email:
  "issues (\<lambda>rq. rq_headers rq = get_headers self) (send_email py net self to subject body)"
  unfolding send_email_def
  by (intro issues_intros) (simp add: mail_request_def)

lemma issues_get_plan_tasks:
  "issues (\<lambda>rq. rq_headers rq = get_headers self) (get_plan_tasks py net self plan_id filter_str)"
  unfolding get_plan_tasks_def
  by (intro issues_intros) (simp add: tasks_request_def)

lemma issues_get_tasks:
  "issues (\<lambda>rq. rq_headers rq = get_headers self) (get_tasks py net self plan_id filter_str)"
  unfolding get_tasks_def
  by (intro issues_intros issues_get_plan_tasks) (simp add: plans_request_def)

lemma issues_create_task:
  "issues (\<lambda>rq. rq_headers rq = get_headers self)
     (create_task py net self plan_id title description due_date)"
  unfolding create_task_def
  by (intro issues_intros)
     (simp_all add: buckets_request_def task_request_def details_request_def)

lemma execute_tool_requests:
  "\<exists>rs. snd (execute_tool py net self function_name arguments w) = w @ rs \<and>
        list_all (\<lambda>rq. rq_headers rq = get_headers (m365 self)) rs"
proof -
  have "issues (\<lambda>rq. rq_headers rq = get_headers (m365 self))
     (if function_name = JStr ''get_emails'' then
          io_then (io_of (dict_get arguments ''limit'' (JInt 10))) (\<lambda>limit.
          io_then (io_of (dict_get arguments ''filter'' JNull)) (\<lambda>filter_str.
            get_emails py net (m365 self) limit filter_str))
        else if function_name = JStr ''send_email'' then
          io_then (io_of (subscript arguments ''to'')) (\<lambda>to.
          io_then (io_of (subscript arguments ''subject'')) (\<lambda>subject.
          io_then (io_of (subscript arguments ''body'')) (\<lambda>body.
            send_email py net (m365 self) to subject body)))
        else if function_name = JStr ''get_tasks'' then
          io_then (io_of (dict_get arguments ''plan_id'' JNull)) (\<lambda>plan_id.
          io_then (io_of (dict_get arguments ''filter'' JNull)) (\<lambda>filter_str.
            get_tasks py net (m365 self) plan_id filter_str))
        else if function_name = JStr ''create_task'' then
          io_then (io_of (subscript arguments ''plan_id'')) (\<lambda>plan_id.
          io_then (io_of (subscript arguments ''title'')) (\<lambda>title.
          io_then (io_of (dict_get arguments ''description'' JNull)) (\<lambda>description.
          io_then (io_of (dict_get arguments ''due_date'' JNull)) (\<lambda>due_date.
            create_task py net (m365 self) plan_id title description due_date))))
        else
          io_of (Inr (error_result (''Unknown function: '' @ fstr py function_name))))"
    (is "issues _ ?m")
    by (intro issues_intros issues_get_emails issues_send_email issues_get_tasks
          issues_create_task)
  then obtain rs where "snd (?m w) = w @ rs"
      "list_all (\<lambda>rq. rq_headers rq = get_headers (m365 self)) rs"
    by (auto simp: issues_def)
  moreover have "snd (execute_tool py net self function_name arguments w) = snd (?m w)"
    by (simp add: execute_tool_def or_error_result_def split: prod.splits sum.splits)
  ultimately show ?thesis by auto
qed

lemma chat_request_headers [simp]: "rq_headers (chat_request self ms) = []"
  by (simp add: chat_request_def)

lemma get_headers_nonempty [simp]: "get_headers c \<noteq> []"
  by (simp add: get_headers_def)

lemma message_role [simp]: "message r c = message r' c' \<longleftrightarrow> r = r' \<and> c = c'"
  by (simp add: message_def)

lemma process_request_shape:
  assumes run: "process_request py net self user_input w = (result, self', w')"
      and h: "h = conversation_history self @ [message ''user'' (JStr user_input)]"
      and chat: "chat = chat_request self (with_system_prompt h)"
  shows "(w' = w @ [chat] \<and>
          (conversation_history self' = h \<or>
           (\<exists>r. conversation_history self' = h @ [message ''assistant'' r])))
       \<or> (\<exists>tool_name parameters tool_result rs hist.
            execute_tool py net self tool_name parameters (w @ [chat]) =
              (tool_result, w @ [chat] @ rs) \<and>
            list_all (\<lambda>rq. rq_headers rq = get_headers (m365 self)) rs \<and>
            hist = h @ [tool_marker py tool_name, tool_result_message py tool_result] \<and>
            w' = w @ [chat] @ rs @ [chat_request self (with_system_prompt hist)] \<and>
            (conversation_history self' = hist \<or>
             (\<exists>r. conversation_history self' = hist @ [message ''assistant'' r])))"
proof -
  obtain r1 w1 where c1: "call_ollama net self (with_system_prompt h) w = (r1, w1)"
    by (cases "call_ollama net self (with_system_prompt h) w")
  have w1: "w1 = w @ [chat]"
    using call_ollama_world [OF c1] chat by simp
  let ?plain = "w' = w @ [chat] \<and>
          (conversation_history self' = h \<or>
           (\<exists>r. conversation_history self' = h @ [message ''assistant'' r]))"
  show ?thesis
  proof (cases r1)
    case (Inl e)
    then have ?plain
      using run c1 w1 h by (auto simp: process_request_def Let_def append_message_def)
    then show ?thesis by blast
  next
    case (Inr response_text)
    note rt = this
    show ?thesis
    proof (cases "is_tool_call py response_text")
      case (Inl e)
      then have ?plain
        using run c1 w1 h rt by (auto simp: process_request_def Let_def append_message_def)
      then show ?thesis by blast
    next
      case (Inr b)
      note tc = this
      show ?thesis
      proof (cases b)
        case False
        then have ?plain
          using run c1 w1 h rt tc
          by (auto simp: process_request_def Let_def append_message_def normal_response_def)
        then show ?thesis by blast
      next
        case True
        have pr: "process_request py net self user_input w =
            tool_turn py net (self\<lparr>conversation_history := h\<rparr>) response_text w1"
          using c1 h rt tc True by (simp add: process_request_def Let_def append_message_def)
        show ?thesis
        proof (cases "\<exists>s tool_call tool_name parameters. response_text = JStr s \<and>
            loads py s = Some tool_call \<and>
            dict_get tool_call ''tool'' JNull = Inr tool_name \<and>
            dict_get tool_call ''parameters'' (JObj []) = Inr parameters")
          case False
          then have ?plain
            using run pr w1
            by (auto simp: tool_turn_def normal_response_def append_message_def and_then_def
                  Let_def split: json.splits option.splits sum.splits)
          then show ?thesis by blast
        next
          case True
          then obtain s tool_call tool_name parameters where
            s: "response_text = JStr s" "loads py s = Some tool_call"
               "dict_get tool_call ''tool'' JNull = Inr tool_name"
               "dict_get tool_call ''parameters'' (JObj []) = Inr parameters"
            by blast
          obtain tool_result w2 where
            ex: "execute_tool py net self tool_name parameters w1 = (tool_result, w2)"
            by (cases "execute_tool py net self tool_name parameters w1")
          obtain rs where rs: "w2 = w1 @ rs"
              "list_all (\<lambda>rq. rq_headers rq = get_headers (m365 self)) rs"
            using execute_tool_requests [of py net self tool_name parameters w1] ex by auto
          define hist where
            "hist = h @ [tool_marker py tool_name, tool_result_message py tool_result]"
          obtain r2 w3 where c2: "call_ollama net self (with_system_prompt hist) w2 = (r2, w3)"
            by (cases "call_ollama net self (with_system_prompt hist) w2")
          have w3: "w3 = w2 @ [chat_request self (with_system_prompt hist)]"
            using call_ollama_world [OF c2] .
          have "w' = w3 \<and> (conversation_history self' = hist \<or>
             (\<exists>r. conversation_history self' = hist @ [message ''assistant'' r]))"
            using run pr s ex c2 hist_def
            by (auto simp: tool_turn_def normal_response_def append_message_def Let_def
                  split: sum.splits if_splits)
          then show ?thesis
            using ex rs w1 w3 hist_def by auto
        qed
      qed
    qed
  qed
qed

lemma send_turn:
  "process_request send_py send_net demo_assistant ''Write to Ann'' [] =
     (Inr (JStr ''Your email to Ann was sent.''),
      demo_assistant\<lparr>conversation_history :=
        send_history @ [message ''assistant'' (JStr ''Your email to Ann was sent.'')]\<rparr>,
      [chat_request demo_assistant (with_system_prompt [message ''user'' (JStr ''Write to Ann'')]),
       mail_request (m365 demo_assistant) (JStr ''ann@example.com'') (JStr ''Hello'') (JStr ''Hi Ann''),
       chat_request demo_assistant (with_system_prompt send_history)])"
proof -
  let ?ps = "[(''to'', JStr ''ann@example.com''), (''subject'', JStr ''Hello''),
              (''body'', JStr ''Hi Ann'')]"
  let ?result = "JObj [(''status'', JStr ''success''),
               (''message'', JStr ''Email sent to ann@example.com'')]"
  let ?chat = "chat_request demo_assistant (with_system_prompt
      (conversation_history demo_assistant @ [message ''user'' (JStr ''Write to Ann'')]))"
  let ?mail = "mail_request (m365 demo_assistant) (JStr ''ann@example.com'') (JStr ''Hello'')
      (JStr ''Hi Ann'')"
  have h: "conversation_history demo_assistant = []"
    by (simp add: demo_assistant_def)
  have first: "call_ollama send_net demo_assistant
      (with_system_prompt (conversation_history demo_assistant @ [message ''user'' (JStr ''Write to Ann'')])) []
      = (Inr (JStr send_call), [] @ [?chat])"
    by (rule call_ollama_reply) (simp add: send_net_def scripted_def)
  have cand: "is_tool_call send_py (JStr send_call) = Inr True"
    by (simp add: is_tool_call_JStr strip_send_call send_py_def table_py_def contains_def)
       (simp add: send_call_def startswith_def endswith_def suffix_to_prefix)
  have parsed: "loads send_py send_call =
      Some (JObj [(''tool'', JStr ''send_email''), (''parameters'', JObj ?ps)])"
    by (simp add: send_py_def table_py_def)
  have name: "dict_get (JObj [(''tool'', JStr ''send_email''), (''parameters'', JObj ?ps)])
      ''tool'' JNull = Inr (JStr ''send_email'')"
    by (simp add: dict_get_def)
  have params: "dict_get (JObj [(''tool'', JStr ''send_email''), (''parameters'', JObj ?ps)])
      ''parameters'' (JObj []) = Inr (JObj ?ps)"
    by (simp add: dict_get_def)
  have exec: "execute_tool send_py send_net demo_assistant (JStr ''send_email'') (JObj ?ps)
      ([] @ [?chat]) = (?result, ([] @ [?chat]) @ [?mail])"
    by (simp add: execute_tool_send_email or_error_result_def send_email_def send_net_def
          scripted_def fstr_def)
  have hist: "send_history = conversation_history demo_assistant @
      [message ''user'' (JStr ''Write to Ann''), tool_marker send_py (JStr ''send_email''),
       tool_result_message send_py ?result]"
    by (simp add: h send_history_def tool_marker_def tool_result_message_def fstr_def
          send_py_def table_py_def)
  have second: "call_ollama send_net demo_assistant (with_system_prompt send_history)
      (([] @ [?chat]) @ [?mail])
      = (Inr (JStr ''Your email to Ann was sent.''),
         (([] @ [?chat]) @ [?mail]) @ [chat_request demo_assistant (with_system_prompt send_history)])"
    by (rule call_ollama_reply) (simp add: send_net_def scripted_def)
  show ?thesis
    using process_request_tool [OF first cand parsed name params exec hist] second
    by (simp add: h)
qed

section \<open>The claims\<close>

text \<open>
  C1. A completion response text \<open>R\<close> is classified as a candidate tool call exactly when,
  after trimming, it starts with \<open>{\<close> and ends with \<open>}\<close> and \<^verbatim>\<open>json.loads\<close> parses it to a
  value that contains \<open>tool\<close> (for a dict: has the key). When the parse fails, on the
  trimmed text or on the text as received, or the classification is negative, the turn
  treats \<open>R\<close> as plain conversational text: it is appended as the assistant's message and
  returned.
\<close>

theorem tool_call_classification:
  assumes "call_ollama net self
             (with_system_prompt (conversation_history self @ [message ''user'' (JStr user_input)])) w
           = (Inr (JStr R), w0)"
  shows "is_tool_call py (JStr R) =
           Inr (startswith (strip R) ''{'' \<and> endswith (strip R) ''}'' \<and>
                (\<exists>data. loads py (strip R) = Some data \<and> contains ''tool'' data = Inr True))
       \<and> (loads py (strip R) = Some (JObj kvs) \<longrightarrow>
            is_tool_call py (JStr R) =
              Inr (startswith (strip R) ''{'' \<and> endswith (strip R) ''}'' \<and> ''tool'' \<in> fst ` set kvs))
       \<and> (loads py (strip R) = None \<or> loads py R = None \<or> is_tool_call py (JStr R) = Inr False \<longrightarrow>
            process_request py net self user_input w =
              (Inr (JStr R),
               self\<lparr>conversation_history := conversation_history self @
                  [message ''user'' (JStr user_input), message ''assistant'' (JStr R)]\<rparr>, w0))"
proof -
  have a: "is_tool_call py (JStr R) =
           Inr (startswith (strip R) ''{'' \<and> endswith (strip R) ''}'' \<and>
                (\<exists>data. loads py (strip R) = Some data \<and> contains ''tool'' data = Inr True))"
    by (rule is_tool_call_JStr)
  have b: "loads py (strip R) = Some (JObj kvs) \<Longrightarrow>
            is_tool_call py (JStr R) =
              Inr (startswith (strip R) ''{'' \<and> endswith (strip R) ''}'' \<and> ''tool'' \<in> fst ` set kvs)"
    by (simp add: is_tool_call_JStr contains_JObj)
  have c: "loads py (strip R) = None \<Longrightarrow> is_tool_call py (JStr R) = Inr False"
    by (simp add: is_tool_call_JStr)
  show ?thesis
    using a b c process_request_normal [OF assms] by blast
qed

theorem tool_call_classification_witness:
  \<open>is_tool_call (table_py [] []) (JStr ''Hello'') = Inr False
   \<and> process_request (table_py [] []) (scripted [chat_reply (JStr ''Hello'')])
         demo_assistant ''hi'' [] =
       (Inr (JStr ''Hello''),
        demo_assistant\<lparr>conversation_history :=
          [message ''user'' (JStr ''hi''), message ''assistant'' (JStr ''Hello'')]\<rparr>,
        [chat_request demo_assistant (with_system_prompt [message ''user'' (JStr ''hi'')])])
   \<and> is_tool_call
         (table_py [(''{"tool": "get_tasks"}'', JObj [(''tool'', JStr ''get_tasks'')])] [])
         (JStr '' {"tool": "get_tasks"} '') = Inr True\<close>
proof -
  have h: "conversation_history demo_assistant = []"
    by (simp add: demo_assistant_def)
  have s1: "strip ''Hello'' = ''Hello''"
    by (simp add: strip_def isspace_def)
  have s2: \<open>strip '' {"tool": "get_tasks"} '' = ''{"tool": "get_tasks"}''\<close>
    by (simp add: strip_def isspace_def)
  have c1: "call_ollama (scripted [chat_reply (JStr ''Hello'')]) demo_assistant
      (with_system_prompt (conversation_history demo_assistant @ [message ''user'' (JStr ''hi'')])) []
      = (Inr (JStr ''Hello''),
         [chat_request demo_assistant (with_system_prompt [message ''user'' (JStr ''hi'')])])"
    by (simp add: call_ollama_reply scripted_def h)
  have c2: \<open>call_ollama (scripted [chat_reply (JStr '' {"tool": "get_tasks"} '')]) demo_assistant
      (with_system_prompt (conversation_history demo_assistant @ [message ''user'' (JStr ''hi'')])) []
      = (Inr (JStr '' {"tool": "get_tasks"} ''),
         [chat_request demo_assistant (with_system_prompt [message ''user'' (JStr ''hi'')])])\<close>
    by (simp add: call_ollama_reply scripted_def h)
  show ?thesis
    using tool_call_classification [OF c1, where py = "table_py [] []"]
      tool_call_classification [OF c2,
        where py = \<open>table_py [(''{"tool": "get_tasks"}'', JObj [(''tool'', JStr ''get_tasks'')])] []\<close>
          and kvs = "[(''tool'', JStr ''get_tasks'')]"]
    by (simp add: s1 s2 h table_py_def startswith_def endswith_def suffix_to_prefix contains_def)
qed

text \<open>
  C2 (amended). When the first completion response is a tool call that names a supported
  tool, whose \<open>parameters\<close> are a dict (or absent) holding the keys the tool requires
  (\<open>to\<close>, \<open>subject\<close>, \<open>body\<close> for \<open>send_email\<close>; \<open>plan_id\<close>, \<open>title\<close> for \<open>create_task\<close>), and the
  second completion call returns a value, then the turn applies the corresponding client
  operation once, to the world the first completion left, with what it raises turned into
  an error result; it appends after the user message the marker \<open>[Used tool: <name>]\<close>,
  the user message with the serialized result and the request to summarize, and the
  assistant message with the second completion; and it returns that completion.
\<close>

theorem tool_round_trip:
  assumes first: "call_ollama net self
             (with_system_prompt (conversation_history self @ [message ''user'' (JStr user_input)])) w
           = (Inr (JStr R), wa)"
      and cand: "is_tool_call py (JStr R) = Inr True"
      and parsed: "loads py R = Some (JObj tool_call)"
      and name: "map_of tool_call ''tool'' = Some (JStr tool_name)"
      and params: "dict_get (JObj tool_call) ''parameters'' (JObj []) = Inr (JObj ps)"
      and op:
        "tool_name = ''get_emails'' \<and>
           operation = get_emails py net (m365 self)
             (case map_of ps ''limit'' of None \<Rightarrow> JInt 10 | Some v \<Rightarrow> v)
             (case map_of ps ''filter'' of None \<Rightarrow> JNull | Some v \<Rightarrow> v)
         \<or> tool_name = ''send_email'' \<and> map_of ps ''to'' = Some to \<and>
           map_of ps ''subject'' = Some subject \<and> map_of ps ''body'' = Some body \<and>
           operation = send_email py net (m365 self) to subject body
         \<or> tool_name = ''get_tasks'' \<and>
           operation = get_tasks py net (m365 self)
             (case map_of ps ''plan_id'' of None \<Rightarrow> JNull | Some v \<Rightarrow> v)
             (case map_of ps ''filter'' of None \<Rightarrow> JNull | Some v \<Rightarrow> v)
         \<or> tool_name = ''create_task'' \<and> map_of ps ''plan_id'' = Some plan_id \<and>
           map_of ps ''title'' = Some title \<and>
           operation = create_task py net (m365 self) plan_id title
             (case map_of ps ''description'' of None \<Rightarrow> JNull | Some v \<Rightarrow> v)
             (case map_of ps ''due_date'' of None \<Rightarrow> JNull | Some v \<Rightarrow> v)"
      and once: "or_error_result py operation wa = (tool_result, wb)"
      and hist: "hist = conversation_history self @
                 [message ''user'' (JStr user_input),
                  message ''assistant'' (JStr (''[Used tool: '' @ tool_name @ '']'')),
                  message ''user'' (JStr (''Tool result: '' @ dumps py tool_result @
                    ''\<newline>\<newline>Please summarize this information in a clear, friendly way for the user.''))]"
      and second: "call_ollama net self (with_system_prompt hist) wb = (Inr F, wc)"
  shows "process_request py net self user_input w =
           (Inr F, self\<lparr>conversation_history := hist @ [message ''assistant'' F]\<rparr>, wc)
       \<and> wa = w @ [chat_request self
           (with_system_prompt (conversation_history self @ [message ''user'' (JStr user_input)]))]
       \<and> wc = wb @ [chat_request self (with_system_prompt hist)]"
proof -
  have exec: "execute_tool py net self (JStr tool_name) (JObj ps) wa = (tool_result, wb)"
    using op once
    by (auto simp: execute_tool_get_emails execute_tool_send_email execute_tool_get_tasks
          execute_tool_create_task)
  have n: "dict_get (JObj tool_call) ''tool'' JNull = Inr (JStr tool_name)"
    using name by (simp add: dict_get_def)
  have h: "hist = conversation_history self @
             [message ''user'' (JStr user_input), tool_marker py (JStr tool_name),
              tool_result_message py tool_result]"
    using hist by (simp add: tool_marker_def tool_result_message_def fstr_def)
  have "process_request py net self user_input w =
           (Inr F, self\<lparr>conversation_history := hist @ [message ''assistant'' F]\<rparr>, wc)"
    using process_request_tool [OF first cand parsed n params exec h] second by simp
  then show ?thesis
    using call_ollama_world [OF first] call_ollama_world [OF second] by simp
qed

theorem tool_round_trip_witness:
  \<open>process_request send_py
       (scripted [chat_reply (JStr send_call), Response 202 None,
                  chat_reply (JStr ''Your email to Ann was sent.'')])
       demo_assistant ''Write to Ann'' [] =
     (Inr (JStr ''Your email to Ann was sent.''),
      demo_assistant\<lparr>conversation_history :=
        [message ''user'' (JStr ''Write to Ann''),
         message ''assistant'' (JStr ''[Used tool: send_email]''),
         message ''user'' (JStr (''Tool result: '' @
           ''{\<newline>  "status": "success",\<newline>  "message": "Email sent to ann@example.com"\<newline>}'' @
           ''\<newline>\<newline>Please summarize this information in a clear, friendly way for the user.'')),
         message ''assistant'' (JStr ''Your email to Ann was sent.'')]\<rparr>,
      [chat_request demo_assistant (with_system_prompt [message ''user'' (JStr ''Write to Ann'')]),
       mail_request \<lparr>token = ''secret''\<rparr> (JStr ''ann@example.com'') (JStr ''Hello'') (JStr ''Hi Ann''),
       chat_request demo_assistant (with_system_prompt
         [message ''user'' (JStr ''Write to Ann''),
          message ''assistant'' (JStr ''[Used tool: send_email]''),
          message ''user'' (JStr (''Tool result: '' @
            ''{\<newline>  "status": "success",\<newline>  "message": "Email sent to ann@example.com"\<newline>}'' @
            ''\<newline>\<newline>Please summarize this information in a clear, friendly way for the user.''))])])\<close>
proof -
  let ?net = "scripted [chat_reply (JStr send_call), Response 202 None,
                  chat_reply (JStr ''Your email to Ann was sent.'')]"
  let ?ps = "[(''to'', JStr ''ann@example.com''), (''subject'', JStr ''Hello''),
              (''body'', JStr ''Hi Ann'')]"
  let ?result = "JObj [(''status'', JStr ''success''),
               (''message'', JStr ''Email sent to ann@example.com'')]"
  let ?chat = "chat_request demo_assistant (with_system_prompt
      (conversation_history demo_assistant @ [message ''user'' (JStr ''Write to Ann'')]))"
  let ?mail = "mail_request (m365 demo_assistant) (JStr ''ann@example.com'') (JStr ''Hello'')
      (JStr ''Hi Ann'')"
  let ?hist = \<open>conversation_history demo_assistant @
        [message ''user'' (JStr ''Write to Ann''),
         message ''assistant'' (JStr (''[Used tool: '' @ ''send_email'' @ '']'')),
         message ''user'' (JStr (''Tool result: '' @ dumps send_py ?result @
           ''\<newline>\<newline>Please summarize this information in a clear, friendly way for the user.''))]\<close>
  have h: "conversation_history demo_assistant = []"
    by (simp add: demo_assistant_def)
  have first: "call_ollama ?net demo_assistant
      (with_system_prompt (conversation_history demo_assistant @ [message ''user'' (JStr ''Write to Ann'')])) []
      = (Inr (JStr send_call), [] @ [?chat])"
    by (rule call_ollama_reply) (simp add: scripted_def)
  have cand: "is_tool_call send_py (JStr send_call) = Inr True"
    by (simp add: is_tool_call_JStr strip_send_call send_py_def table_py_def contains_def)
       (simp add: send_call_def startswith_def endswith_def suffix_to_prefix)
  have parsed: "loads send_py send_call =
      Some (JObj [(''tool'', JStr ''send_email''), (''parameters'', JObj ?ps)])"
    by (simp add: send_py_def table_py_def)
  have name: "map_of [(''tool'', JStr ''send_email''), (''parameters'', JObj ?ps)] ''tool'' =
      Some (JStr ''send_email'')"
    by simp
  have params: "dict_get (JObj [(''tool'', JStr ''send_email''), (''parameters'', JObj ?ps)])
      ''parameters'' (JObj []) = Inr (JObj ?ps)"
    by (simp add: dict_get_def)
  have op: "''send_email'' = ''get_emails'' \<and>
           send_email send_py ?net (m365 demo_assistant) (JStr ''ann@example.com'') (JStr ''Hello'')
             (JStr ''Hi Ann'') = get_emails send_py ?net (m365 demo_assistant)
             (case map_of ?ps ''limit'' of None \<Rightarrow> JInt 10 | Some v \<Rightarrow> v)
             (case map_of ?ps ''filter'' of None \<Rightarrow> JNull | Some v \<Rightarrow> v)
         \<or> ''send_email'' = ''send_email'' \<and> map_of ?ps ''to'' = Some (JStr ''ann@example.com'') \<and>
           map_of ?ps ''subject'' = Some (JStr ''Hello'') \<and> map_of ?ps ''body'' = Some (JStr ''Hi Ann'') \<and>
           send_email send_py ?net (m365 demo_assistant) (JStr ''ann@example.com'') (JStr ''Hello'')
             (JStr ''Hi Ann'') = send_email send_py ?net (m365 demo_assistant)
             (JStr ''ann@example.com'') (JStr ''Hello'') (JStr ''Hi Ann'')
         \<or> ''send_email'' = ''get_tasks'' \<and>
           send_email send_py ?net (m365 demo_assistant) (JStr ''ann@example.com'') (JStr ''Hello'')
             (JStr ''Hi Ann'') = get_tasks send_py ?net (m365 demo_assistant)
             (case map_of ?ps ''plan_id'' of None \<Rightarrow> JNull | Some v \<Rightarrow> v)
             (case map_of ?ps ''filter'' of None \<Rightarrow> JNull | Some v \<Rightarrow> v)
         \<or> ''send_email'' = ''create_task'' \<and> map_of ?ps ''plan_id'' = Some JNull \<and>
           map_of ?ps ''title'' = Some JNull \<and>
           send_email send_py ?net (m365 demo_assistant) (JStr ''ann@example.com'') (JStr ''Hello'')
             (JStr ''Hi Ann'') = create_task send_py ?net (m365 demo_assistant) JNull JNull
             (case map_of ?ps ''description'' of None \<Rightarrow> JNull | Some v \<Rightarrow> v)
             (case map_of ?ps ''due_date'' of None \<Rightarrow> JNull | Some v \<Rightarrow> v)"
    by simp
  have once: "or_error_result send_py
      (send_email send_py ?net (m365 demo_assistant) (JStr ''ann@example.com'') (JStr ''Hello'')
         (JStr ''Hi Ann'')) ([] @ [?chat]) = (?result, ([] @ [?chat]) @ [?mail])"
    by (simp add: or_error_result_def send_email_def scripted_def fstr_def)
  have second: "call_ollama ?net demo_assistant (with_system_prompt ?hist)
      (([] @ [?chat]) @ [?mail])
      = (Inr (JStr ''Your email to Ann was sent.''),
         (([] @ [?chat]) @ [?mail]) @ [chat_request demo_assistant (with_system_prompt ?hist)])"
    by (rule call_ollama_reply) (simp add: scripted_def)
  have "process_request send_py ?net demo_assistant ''Write to Ann'' [] =
     (Inr (JStr ''Your email to Ann was sent.''),
      demo_assistant\<lparr>conversation_history := ?hist @
         [message ''assistant'' (JStr ''Your email to Ann was sent.'')]\<rparr>,
      (([] @ [?chat]) @ [?mail]) @ [chat_request demo_assistant (with_system_prompt ?hist)])"
    using tool_round_trip [OF first cand parsed name params op once refl second]
    by simp
  then show ?thesis
    by (simp add: h send_py_def table_py_def demo_assistant_def)
qed

text \<open>
  The claim as stated fails: the tool call names \<open>send_email\<close> and gives no recipient.
  Reading \<^verbatim>\<open>arguments['to']\<close> raises before the client is called; the turn goes on with
  the error result, and its only requests are the two completion calls.
\<close>

theorem send_email_without_recipient:
  \<open>execute_tool bare_send_py
       (scripted [chat_reply (JStr bare_send_call),
                  chat_reply (JStr ''Who should receive the email?'')])
       demo_assistant (JStr ''send_email'') (JObj [])
       [chat_request demo_assistant (with_system_prompt [message ''user'' (JStr ''Send the email'')])] =
     (JObj [(''error'', JStr (quoted ''to''))],
      [chat_request demo_assistant (with_system_prompt [message ''user'' (JStr ''Send the email'')])])
   \<and> process_request bare_send_py
       (scripted [chat_reply (JStr bare_send_call),
                  chat_reply (JStr ''Who should receive the email?'')])
       demo_assistant ''Send the email'' [] =
     (Inr (JStr ''Who should receive the email?''),
      demo_assistant\<lparr>conversation_history :=
        [message ''user'' (JStr ''Send the email''),
         message ''assistant'' (JStr ''[Used tool: send_email]''),
         message ''user'' (JStr (''Tool result: '' @ ''{\<newline>  "error": "'to'"\<newline>}'' @
           ''\<newline>\<newline>Please summarize this information in a clear, friendly way for the user.'')),
         message ''assistant'' (JStr ''Who should receive the email?'')]\<rparr>,
      [chat_request demo_assistant (with_system_prompt [message ''user'' (JStr ''Send the email'')]),
       chat_request demo_assistant (with_system_prompt
         [message ''user'' (JStr ''Send the email''),
          message ''assistant'' (JStr ''[Used tool: send_email]''),
          message ''user'' (JStr (''Tool result: '' @ ''{\<newline>  "error": "'to'"\<newline>}'' @
            ''\<newline>\<newline>Please summarize this information in a clear, friendly way for the user.''))])])\<close>
proof -
  let ?net = "scripted [chat_reply (JStr bare_send_call),
                  chat_reply (JStr ''Who should receive the email?'')]"
  let ?chat = "chat_request demo_assistant (with_system_prompt
      (conversation_history demo_assistant @ [message ''user'' (JStr ''Send the email'')]))"
  let ?result = "JObj [(''error'', JStr (quoted ''to''))]"
  let ?hist = "conversation_history demo_assistant @
        [message ''user'' (JStr ''Send the email''), tool_marker bare_send_py (JStr ''send_email''),
         tool_result_message bare_send_py ?result]"
  have h: "conversation_history demo_assistant = []"
    by (simp add: demo_assistant_def)
  have first: "call_ollama ?net demo_assistant
      (with_system_prompt (conversation_history demo_assistant @ [message ''user'' (JStr ''Send the email'')])) []
      = (Inr (JStr bare_send_call), [] @ [?chat])"
    by (rule call_ollama_reply) (simp add: scripted_def)
  have cand: "is_tool_call bare_send_py (JStr bare_send_call) = Inr True"
    by (simp add: is_tool_call_JStr strip_bare_send_call bare_send_py_def table_py_def contains_def)
       (simp add: bare_send_call_def startswith_def endswith_def suffix_to_prefix)
  have parsed: "loads bare_send_py bare_send_call =
      Some (JObj [(''tool'', JStr ''send_email''), (''parameters'', JObj [])])"
    by (simp add: bare_send_py_def table_py_def)
  have name: "dict_get (JObj [(''tool'', JStr ''send_email''), (''parameters'', JObj [])])
      ''tool'' JNull = Inr (JStr ''send_email'')"
    by (simp add: dict_get_def)
  have params: "dict_get (JObj [(''tool'', JStr ''send_email''), (''parameters'', JObj [])])
      ''parameters'' (JObj []) = Inr (JObj [])"
    by (simp add: dict_get_def)
  have exec: "execute_tool bare_send_py ?net demo_assistant (JStr ''send_email'') (JObj []) w =
      (?result, w)" for w
    by (simp add: execute_tool_def or_error_result_def subscript_def str_exn_def error_result_def)
  have second: "call_ollama ?net demo_assistant (with_system_prompt ?hist) ([] @ [?chat])
      = (Inr (JStr ''Who should receive the email?''),
         ([] @ [?chat]) @ [chat_request demo_assistant (with_system_prompt ?hist)])"
    by (rule call_ollama_reply) (simp add: scripted_def)
  have "process_request bare_send_py ?net demo_assistant ''Send the email'' [] =
     (Inr (JStr ''Who should receive the email?''),
      demo_assistant\<lparr>conversation_history := ?hist @
         [message ''assistant'' (JStr ''Who should receive the email?'')]\<rparr>,
      ([] @ [?chat]) @ [chat_request demo_assistant (with_system_prompt ?hist)])"
    using process_request_tool [OF first cand parsed name params exec refl] second
    by simp
  then show ?thesis
    using exec
    by (simp add: h tool_marker_def tool_result_message_def fstr_def bare_send_py_def
          table_py_def)
qed

text \<open>
  C3 (amended). In each of the four operations of the client, a response with a status
  other than the one the operation expects, to any request whose status it reads (every
  request but the description PATCH of \<^verbatim>\<open>create_task\<close>), makes the operation return a
  record with an \<open>error\<close> field, and nothing is raised. A transport failure is not handled
  in the client: at every request of every operation, the exception of \<^verbatim>\<open>requests\<close> leaves
  the operation.
\<close>

theorem client_status_errors_and_transport_failures:
  "(get_emails_params limit filter_str = Inr params \<and>
    net w (emails_request self params) = Response c b \<and> c \<noteq> 200 \<longrightarrow>
      get_emails py net self limit filter_str w =
        (Inr (error_result (''Failed to retrieve emails: '' @ str_int c)),
         w @ [emails_request self params]))
 \<and> (net w (mail_request self to subject body) = Response c b \<and> c \<noteq> 202 \<longrightarrow>
      send_email py net self to subject body w =
        (Inr (error_result (''Failed to send email: '' @ str_int c)),
         w @ [mail_request self to subject body]))
 \<and> (\<not> truthy plan_id \<and> net w (plans_request self) = Response c b \<and> c \<noteq> 200 \<longrightarrow>
      get_tasks py net self plan_id filter_str w =
        (Inr (error_result ''Failed to retrieve plans''), w @ [plans_request self]))
 \<and> (truthy plan_id \<and> net w (tasks_request py self plan_id) = Response c b \<and> c \<noteq> 200 \<longrightarrow>
      get_tasks py net self plan_id filter_str w =
        (Inr (error_result (''Failed to retrieve tasks: '' @ str_int c)),
         w @ [tasks_request py self plan_id]))
 \<and> (\<not> truthy plan_id \<and> net w (plans_request self) = Response 200 (Some j) \<and>
    dict_get j ''value'' (JList []) = Inr plans \<and> truthy plans \<and>
    and_then (subscript0 plans) (\<lambda>p. subscript p ''id'') = Inr first_id \<and>
    net (w @ [plans_request self]) (tasks_request py self first_id) = Response c b \<and>
    c \<noteq> 200 \<longrightarrow>
      get_tasks py net self plan_id filter_str w =
        (Inr (error_result (''Failed to retrieve tasks: '' @ str_int c)),
         w @ [plans_request self, tasks_request py self first_id]))
 \<and> (net w (buckets_request py self plan_id) = Response c b \<and> c \<noteq> 200 \<longrightarrow>
      create_task py net self plan_id title description due_date w =
        (Inr (error_result ''Failed to retrieve buckets''),
         w @ [buckets_request py self plan_id]))
 \<and> (net w (buckets_request py self plan_id) = Response 200 (Some j) \<and>
    dict_get j ''value'' (JList []) = Inr buckets \<and> truthy buckets \<and>
    and_then (subscript0 buckets) (\<lambda>b. subscript b ''id'') = Inr bucket_id \<and>
    net (w @ [buckets_request py self plan_id])
      (task_request py self plan_id bucket_id title due_date) = Response c b \<and>
    c \<noteq> 201 \<longrightarrow>
      create_task py net self plan_id title description due_date w =
        (Inr (error_result (''Failed to create task: '' @ str_int c)),
         w @ [buckets_request py self plan_id,
              task_request py self plan_id bucket_id title due_date]))
 \<and> (get_emails_params limit filter_str = Inr params \<and>
    net w (emails_request self params) = Failed m \<longrightarrow>
      get_emails py net self limit filter_str w =
        (Inl (RequestException m), w @ [emails_request self params]))
 \<and> (net w (mail_request self to subject body) = Failed m \<longrightarrow>
      send_email py net self to subject body w =
        (Inl (RequestException m), w @ [mail_request self to subject body]))
 \<and> (net w (if truthy plan_id then tasks_request py self plan_id else plans_request self)
      = Failed m \<longrightarrow>
      get_tasks py net self plan_id filter_str w =
        (Inl (RequestException m),
         w @ [if truthy plan_id then tasks_request py self plan_id else plans_request self]))
 \<and> (net w (buckets_request py self plan_id) = Failed m \<longrightarrow>
      create_task py net self plan_id title description due_date w =
        (Inl (RequestException m), w @ [buckets_request py self plan_id]))
 \<and> (\<not> truthy plan_id \<and> net w (plans_request self) = Response 200 (Some j) \<and>
    dict_get j ''value'' (JList []) = Inr plans \<and> truthy plans \<and>
    and_then (subscript0 plans) (\<lambda>p. subscript p ''id'') = Inr first_id \<and>
    net (w @ [plans_request self]) (tasks_request py self first_id) = Failed m \<longrightarrow>
      get_tasks py net self plan_id filter_str w =
        (Inl (RequestException m),
         w @ [plans_request self, tasks_request py self first_id]))
 \<and> (net w (buckets_request py self plan_id) = Response 200 (Some j) \<and>
    dict_get j ''value'' (JList []) = Inr buckets \<and> truthy buckets \<and>
    and_then (subscript0 buckets) (\<lambda>b. subscript b ''id'') = Inr bucket_id \<and>
    net (w @ [buckets_request py self plan_id])
      (task_request py self plan_id bucket_id title due_date) = Failed m \<longrightarrow>
      create_task py net self plan_id title description due_date w =
        (Inl (RequestException m),
         w @ [buckets_request py self plan_id,
              task_request py self plan_id bucket_id title due_date]))
 \<and> (net w (buckets_request py self plan_id) = Response 200 (Some j) \<and>
    dict_get j ''value'' (JList []) = Inr buckets \<and> truthy buckets \<and>
    and_then (subscript0 buckets) (\<lambda>b. subscript b ''id'') = Inr bucket_id \<and>
    net (w @ [buckets_request py self plan_id])
      (task_request py self plan_id bucket_id title due_date) = Response 201 (Some task) \<and>
    subscript task ''id'' = Inr task_id \<and> truthy description \<and>
    net (w @ [buckets_request py self plan_id,
              task_request py self plan_id bucket_id title due_date])
      (details_request py self task_id description) = Failed m \<longrightarrow>
      create_task py net self plan_id title description due_date w =
        (Inl (RequestException m),
         w @ [buckets_request py self plan_id,
              task_request py self plan_id bucket_id title due_date,
              details_request py self task_id description]))"
proof -
  have tasks: "\<not> truthy plan_id \<and> net w (plans_request self) = Response 200 (Some j) \<and>
    dict_get j ''value'' (JList []) = Inr plans \<and> truthy plans \<and>
    and_then (subscript0 plans) (\<lambda>p. subscript p ''id'') = Inr first_id \<and>
    net (w @ [plans_request self]) (tasks_request py self first_id) = Response c b \<and>
    c \<noteq> 200 \<longrightarrow>
      get_tasks py net self plan_id filter_str w =
        (Inr (error_result (''Failed to retrieve tasks: '' @ str_int c)),
         w @ [plans_request self, tasks_request py self first_id])"
    by (simp add: get_tasks_first_plan get_plan_tasks_status)
  show ?thesis
    using tasks
    by (intro conjI impI)
       (simp_all add: get_emails_status send_email_status get_tasks_plans_status
          get_tasks_given_plan get_plan_tasks_status create_task_buckets_status
          create_task_post_status get_emails_transport send_email_transport
          get_tasks_transport create_task_transport get_tasks_tasks_transport
          create_task_post_transport create_task_patch_transport)
qed

theorem client_status_errors_witness:
  "get_emails (table_py [] []) (scripted [Response 404 None]) \<lparr>token = ''secret''\<rparr>
      (JInt 10) (JStr ''unread'') [] =
     (Inr (JObj [(''error'', JStr ''Failed to retrieve emails: 404'')]),
      [emails_request \<lparr>token = ''secret''\<rparr>
         [(''$top'', JInt 10), (''$orderby'', JStr ''receivedDateTime DESC''),
          (''$filter'', JStr ''isRead eq false'')]])
   \<and> send_email (table_py [] []) (scripted [Response 403 None]) \<lparr>token = ''secret''\<rparr>
      (JStr ''ann@example.com'') (JStr ''Hello'') (JStr ''Hi Ann'') [] =
     (Inr (JObj [(''error'', JStr ''Failed to send email: 403'')]),
      [mail_request \<lparr>token = ''secret''\<rparr> (JStr ''ann@example.com'') (JStr ''Hello'') (JStr ''Hi Ann'')])
   \<and> get_tasks (table_py [] []) (scripted [Response 403 None]) \<lparr>token = ''secret''\<rparr>
      JNull JNull [] =
     (Inr (JObj [(''error'', JStr ''Failed to retrieve plans'')]),
      [plans_request \<lparr>token = ''secret''\<rparr>])
   \<and> create_task (table_py [] []) (scripted [one_bucket, Response 400 None])
      \<lparr>token = ''secret''\<rparr> (JStr ''P1'') (JStr ''X'') JNull JNull [] =
     (Inr (JObj [(''error'', JStr ''Failed to create task: 400'')]),
      [buckets_request (table_py [] []) \<lparr>token = ''secret''\<rparr> (JStr ''P1''),
       task_request (table_py [] []) \<lparr>token = ''secret''\<rparr> (JStr ''P1'') (JStr ''B1'') (JStr ''X'') JNull])
   \<and> send_email (table_py [] []) (scripted []) \<lparr>token = ''secret''\<rparr>
      (JStr ''ann@example.com'') (JStr ''Hello'') (JStr ''Hi Ann'') [] =
     (Inl (RequestException ''Connection refused''),
      [mail_request \<lparr>token = ''secret''\<rparr> (JStr ''ann@example.com'') (JStr ''Hello'') (JStr ''Hi Ann'')])"
proof -
  note t = client_status_errors_and_transport_failures
    [where py = "table_py [] []" and self = "\<lparr>token = ''secret''\<rparr>" and w = "[]"]
  have e: "get_emails_params (JInt 10) (JStr ''unread'') =
      Inr [(''$top'', JInt 10), (''$orderby'', JStr ''receivedDateTime DESC''),
           (''$filter'', JStr ''isRead eq false'')]"
    by (simp add: get_emails_params_def truthy_def)
  show ?thesis
    using
      t [where net = "scripted [Response 404 None]" and limit = "JInt 10"
           and filter_str = "JStr ''unread''" and c = 404 and b = None
           and params = "[(''$top'', JInt 10), (''$orderby'', JStr ''receivedDateTime DESC''),
              (''$filter'', JStr ''isRead eq false'')]"]
      t [where net = "scripted [Response 403 None]" and to = "JStr ''ann@example.com''"
           and subject = "JStr ''Hello''" and body = "JStr ''Hi Ann''" and c = 403 and b = None
           and plan_id = JNull and filter_str = JNull]
      t [where net = "scripted [one_bucket, Response 400 None]" and plan_id = "JStr ''P1''"
           and title = "JStr ''X''" and description = JNull and due_date = JNull
           and j = "JObj [(''value'', JList [JObj [(''id'', JStr ''B1'')]])]"
           and buckets = "JList [JObj [(''id'', JStr ''B1'')]]" and bucket_id = "JStr ''B1''"
           and c = 400 and b = None]
      t [where net = "scripted []" and to = "JStr ''ann@example.com''"
           and subject = "JStr ''Hello''" and body = "JStr ''Hi Ann''"
           and m = "''Connection refused''"]
    by (simp add: e scripted_def one_bucket_def truthy_def dict_get_def subscript0_def
          subscript_def error_result_def str_int_404 str_int_403 str_int_400)
qed

text \<open>
  The claim as stated fails: the connection is refused, and \<^verbatim>\<open>get_emails\<close> raises.
\<close>

theorem get_emails_transport_failure_raises:
  "get_emails (table_py [] []) (scripted []) \<lparr>token = ''secret''\<rparr> (JInt 10) JNull [] =
     (Inl (RequestException ''Connection refused''),
      [emails_request \<lparr>token = ''secret''\<rparr>
         [(''$top'', JInt 10), (''$orderby'', JStr ''receivedDateTime DESC'')]])"
  by (simp add: get_emails_def get_emails_params_def truthy_def scripted_def)

text \<open>
  C4. For a tool name that is none of the four supported ones, and any arguments,
  \<^verbatim>\<open>execute_tool\<close> returns \<open>{error: "Unknown function: <name>"}\<close> and issues no request.
  When the completion response is such a tool call, \<^verbatim>\<open>process_request\<close> still appends
  the tool marker and the message holding the serialized error, and makes the second
  completion call with them; when that call returns a text, the text is the result of
  the turn.
\<close>

theorem unknown_tool_round_trip:
  assumes "tool_name \<notin> {''get_emails'', ''send_email'', ''get_tasks'', ''create_task''}"
  shows "execute_tool py net self (JStr tool_name) arguments w =
           (error_result (''Unknown function: '' @ tool_name), w)
       \<and> (call_ollama net self
             (with_system_prompt (conversation_history self @ [message ''user'' (JStr user_input)])) w
           = (Inr (JStr R), w0) \<and>
          is_tool_call py (JStr R) = Inr True \<and>
          loads py R = Some (JObj tool_call) \<and>
          map_of tool_call ''tool'' = Some (JStr tool_name) \<and>
          hist = conversation_history self @
                 [message ''user'' (JStr user_input),
                  message ''assistant'' (JStr (''[Used tool: '' @ tool_name @ '']'')),
                  tool_result_message py (error_result (''Unknown function: '' @ tool_name))]
          \<longrightarrow>
            snd (snd (process_request py net self user_input w)) =
              w0 @ [chat_request self (with_system_prompt hist)]
          \<and> prefix hist (conversation_history (fst (snd (process_request py net self user_input w))))
          \<and> (call_ollama net self (with_system_prompt hist) w0 = (Inr F, w2) \<longrightarrow>
               process_request py net self user_input w =
                 (Inr F, self\<lparr>conversation_history := hist @ [message ''assistant'' F]\<rparr>, w2)))"
proof -
  have x: "\<And>arguments w. execute_tool py net self (JStr tool_name) arguments w =
           (error_result (''Unknown function: '' @ tool_name), w)"
    using assms by (rule execute_tool_unknown)
  have y: "snd (snd (process_request py net self user_input w)) =
              w0 @ [chat_request self (with_system_prompt hist)]
          \<and> prefix hist (conversation_history (fst (snd (process_request py net self user_input w))))
          \<and> (call_ollama net self (with_system_prompt hist) w0 = (Inr F, w2) \<longrightarrow>
               process_request py net self user_input w =
                 (Inr F, self\<lparr>conversation_history := hist @ [message ''assistant'' F]\<rparr>, w2))"
    if first: "call_ollama net self
             (with_system_prompt (conversation_history self @ [message ''user'' (JStr user_input)])) w
           = (Inr (JStr R), w0)"
      and cand: "is_tool_call py (JStr R) = Inr True"
      and parsed: "loads py R = Some (JObj tool_call)"
      and name: "map_of tool_call ''tool'' = Some (JStr tool_name)"
      and hist: "hist = conversation_history self @
                 [message ''user'' (JStr user_input),
                  message ''assistant'' (JStr (''[Used tool: '' @ tool_name @ '']'')),
                  tool_result_message py (error_result (''Unknown function: '' @ tool_name))]"
  proof -
    obtain parameters where p: "dict_get (JObj tool_call) ''parameters'' (JObj []) = Inr parameters"
      by (cases "map_of tool_call ''parameters''") (auto simp: dict_get_def)
    have n: "dict_get (JObj tool_call) ''tool'' JNull = Inr (JStr tool_name)"
      using name by (simp add: dict_get_def)
    have h: "hist = conversation_history self @
                 [message ''user'' (JStr user_input), tool_marker py (JStr tool_name),
                  tool_result_message py (error_result (''Unknown function: '' @ tool_name))]"
      using hist by (simp add: tool_marker_def fstr_def)
    note t = process_request_tool [OF first cand parsed n p x h]
    obtain r w3 where c: "call_ollama net self (with_system_prompt hist) w0 = (r, w3)"
      by (cases "call_ollama net self (with_system_prompt hist) w0")
    have w3: "w3 = w0 @ [chat_request self (with_system_prompt hist)]"
      using call_ollama_world [OF c] .
    show ?thesis
      using t c w3 by (auto split: sum.splits)
  qed
  show ?thesis
    using x y by blast
qed

theorem unknown_tool_witness:
  \<open>execute_tool foo_py (scripted []) demo_assistant (JStr ''foo'') (JObj [(''x'', JInt 1)]) [] =
     (JObj [(''error'', JStr ''Unknown function: foo'')], [])
   \<and> process_request foo_py
       (scripted [chat_reply (JStr foo_call), chat_reply (JStr ''There is no tool named foo.'')])
       demo_assistant ''Do foo'' [] =
     (Inr (JStr ''There is no tool named foo.''),
      demo_assistant\<lparr>conversation_history :=
        [message ''user'' (JStr ''Do foo''),
         message ''assistant'' (JStr ''[Used tool: foo]''),
         message ''user'' (JStr (''Tool result: {\<newline>  "error": "Unknown function: foo"\<newline>}'' @
           ''\<newline>\<newline>Please summarize this information in a clear, friendly way for the user.'')),
         message ''assistant'' (JStr ''There is no tool named foo.'')]\<rparr>,
      [chat_request demo_assistant (with_system_prompt [message ''user'' (JStr ''Do foo'')]),
       chat_request demo_assistant (with_system_prompt
         [message ''user'' (JStr ''Do foo''),
          message ''assistant'' (JStr ''[Used tool: foo]''),
          message ''user'' (JStr (''Tool result: {\<newline>  "error": "Unknown function: foo"\<newline>}'' @
            ''\<newline>\<newline>Please summarize this information in a clear, friendly way for the user.''))])])\<close>
proof -
  let ?net = "scripted [chat_reply (JStr foo_call), chat_reply (JStr ''There is no tool named foo.'')]"
  let ?hist = \<open>[message ''user'' (JStr ''Do foo''),
         message ''assistant'' (JStr ''[Used tool: foo]''),
         message ''user'' (JStr (''Tool result: {\<newline>  "error": "Unknown function: foo"\<newline>}'' @
           ''\<newline>\<newline>Please summarize this information in a clear, friendly way for the user.''))]\<close>
  have n: "''foo'' \<notin> {''get_emails'', ''send_email'', ''get_tasks'', ''create_task''}"
    by simp
  have h: "conversation_history demo_assistant = []"
    by (simp add: demo_assistant_def)
  have first: "call_ollama ?net demo_assistant
      (with_system_prompt (conversation_history demo_assistant @ [message ''user'' (JStr ''Do foo'')])) []
      = (Inr (JStr foo_call),
         [] @ [chat_request demo_assistant (with_system_prompt
            (conversation_history demo_assistant @ [message ''user'' (JStr ''Do foo'')]))])"
    by (rule call_ollama_reply) (simp add: scripted_def)
  have cand: "is_tool_call foo_py (JStr foo_call) = Inr True"
    by (simp add: is_tool_call_JStr strip_foo_call foo_py_def table_py_def contains_def)
       (simp add: foo_call_def startswith_def endswith_def suffix_to_prefix)
  have parsed: "loads foo_py foo_call =
      Some (JObj [(''tool'', JStr ''foo''), (''parameters'', JObj [(''x'', JInt 1)])])"
    by (simp add: foo_py_def table_py_def)
  have hist: "?hist = conversation_history demo_assistant @
      [message ''user'' (JStr ''Do foo''),
       message ''assistant'' (JStr (''[Used tool: '' @ ''foo'' @ '']'')),
       tool_result_message foo_py (error_result (''Unknown function: '' @ ''foo''))]"
    by (simp add: h tool_result_message_def error_result_def foo_py_def table_py_def)
  have second: "call_ollama ?net demo_assistant (with_system_prompt ?hist)
      ([] @ [chat_request demo_assistant (with_system_prompt
            (conversation_history demo_assistant @ [message ''user'' (JStr ''Do foo'')]))])
      = (Inr (JStr ''There is no tool named foo.''),
         ([] @ [chat_request demo_assistant (with_system_prompt
            (conversation_history demo_assistant @ [message ''user'' (JStr ''Do foo'')]))]) @
         [chat_request demo_assistant (with_system_prompt ?hist)])"
    by (rule call_ollama_reply) (simp add: scripted_def)
  note t = unknown_tool_round_trip [OF n, where py = foo_py and self = demo_assistant]
  have a: "execute_tool foo_py (scripted []) demo_assistant (JStr ''foo'') (JObj [(''x'', JInt 1)]) [] =
     (JObj [(''error'', JStr ''Unknown function: foo'')], [])"
    using t [where net = "scripted []" and arguments = "JObj [(''x'', JInt 1)]" and w = "[]",
        THEN conjunct1]
    by (simp add: error_result_def)
  have b: "process_request foo_py ?net demo_assistant ''Do foo'' [] =
     (Inr (JStr ''There is no tool named foo.''),
      demo_assistant\<lparr>conversation_history := ?hist @
         [message ''assistant'' (JStr ''There is no tool named foo.'')]\<rparr>,
      ([] @ [chat_request demo_assistant (with_system_prompt
            (conversation_history demo_assistant @ [message ''user'' (JStr ''Do foo'')]))]) @
         [chat_request demo_assistant (with_system_prompt ?hist)])"
    using t [where net = ?net and w = "[]" and user_input = "''Do foo''" and R = foo_call
        and hist = ?hist
        and tool_call = "[(''tool'', JStr ''foo''), (''parameters'', JObj [(''x'', JInt 1)])]",
        THEN conjunct2, rule_format, THEN conjunct2, THEN conjunct2, rule_format,
        OF conjI [OF first conjI [OF cand conjI [OF parsed conjI [OF _ hist]]]] second]
    by simp
  show ?thesis
    using a b by (simp add: h)
qed

text \<open>
  C5. When the bucket listing of the plan answers with status 200 and no bucket (an empty
  or absent \<open>value\<close>), \<^verbatim>\<open>create_task\<close> returns an error result and the only request it
  has issued is the GET of the listing: the POST that creates the task is not sent.
\<close>

theorem create_task_without_buckets:
  assumes "net w (buckets_request py self plan_id) = Response 200 (Some j)"
      and "dict_get j ''value'' (JList []) = Inr (JList [])"
  shows "create_task py net self plan_id title description due_date w =
           (Inr (error_result ''No buckets found in plan''),
            w @ [buckets_request py self plan_id])
       \<and> rq_verb (buckets_request py self plan_id) = GET"
  using assms
  by (simp add: create_task_def response_json_def truthy_def buckets_request_def)

theorem create_task_without_buckets_witness:
  "create_task (table_py [] []) (scripted [Response 200 (Some (JObj [(''value'', JList [])]))])
      \<lparr>token = ''secret''\<rparr> (JStr ''P1'') (JStr ''X'') JNull JNull [] =
     (Inr (JObj [(''error'', JStr ''No buckets found in plan'')]),
      [\<lparr>rq_verb = GET,
        rq_url = ''https://graph.microsoft.com/v1.0/planner/plans/P1/buckets'',
        rq_headers = [(''Authorization'', ''Bearer secret''), (''Content-Type'', ''application/json'')],
        rq_params = [], rq_json = None\<rparr>])"
proof -
  have a: "scripted [Response 200 (Some (JObj [(''value'', JList [])]))] []
      (buckets_request (table_py [] []) \<lparr>token = ''secret''\<rparr> (JStr ''P1''))
      = Response 200 (Some (JObj [(''value'', JList [])]))"
    by (simp add: scripted_def)
  have b: "dict_get (JObj [(''value'', JList [])]) ''value'' (JList []) = Inr (JList [])"
    by (simp add: dict_get_def)
  show ?thesis
    using create_task_without_buckets
      [where net = "scripted [Response 200 (Some (JObj [(''value'', JList [])]))]" and w = "[]"
         and title = "JStr ''X''" and description = JNull and due_date = JNull, OF a b]
    by (simp add: error_result_def buckets_request_def get_headers_def fstr_def)
qed

text \<open>
  C6 (amended). When the bucket listing yields a first bucket, the POST that creates the
  task is answered with status 201 and a body holding \<open>id\<close> and \<open>title\<close>, and a description
  is given, \<^verbatim>\<open>create_task\<close> returns \<open>{status: success, task_id, title}\<close> whatever status and
  body the response to the description PATCH has: that response is never read. When the
  PATCH fails in transport, the exception of \<^verbatim>\<open>requests\<close> leaves \<^verbatim>\<open>create_task\<close>, although
  the task has been created.
\<close>

theorem create_task_ignores_patch_status:
  assumes "net w (buckets_request py self plan_id) = Response 200 (Some j)"
      and "dict_get j ''value'' (JList []) = Inr buckets"
      and "truthy buckets"
      and "and_then (subscript0 buckets) (\<lambda>b. subscript b ''id'') = Inr bucket_id"
      and "create = task_request py self plan_id bucket_id title due_date"
      and "net (w @ [buckets_request py self plan_id]) create = Response 201 (Some task)"
      and "subscript task ''id'' = Inr task_id"
      and "subscript task ''title'' = Inr task_title"
      and "truthy description"
      and "patch = details_request py self task_id description"
  shows "(net (w @ [buckets_request py self plan_id, create]) patch = Response c b \<longrightarrow>
           create_task py net self plan_id title description due_date w =
             (Inr (JObj [(''status'', JStr ''success''), (''task_id'', task_id),
                         (''title'', task_title)]),
              w @ [buckets_request py self plan_id, create, patch]))
       \<and> (net (w @ [buckets_request py self plan_id, create]) patch = Failed m \<longrightarrow>
           create_task py net self plan_id title description due_date w =
             (Inl (RequestException m),
              w @ [buckets_request py self plan_id, create, patch]))"
  using assms
  by (simp add: create_task_def response_json_def)

theorem create_task_ignores_patch_status_witness:
  "create_task (table_py [] []) (scripted [one_bucket, task_created, Response 500 None])
      \<lparr>token = ''secret''\<rparr> (JStr ''P1'') (JStr ''X'') (JStr ''details'') JNull [] =
     (Inr (JObj [(''status'', JStr ''success''), (''task_id'', JStr ''T1''), (''title'', JStr ''X'')]),
      [buckets_request (table_py [] []) \<lparr>token = ''secret''\<rparr> (JStr ''P1''),
       task_request (table_py [] []) \<lparr>token = ''secret''\<rparr> (JStr ''P1'') (JStr ''B1'') (JStr ''X'') JNull,
       details_request (table_py [] []) \<lparr>token = ''secret''\<rparr> (JStr ''T1'') (JStr ''details'')])"
  using create_task_ignores_patch_status
    [where net = "scripted [one_bucket, task_created, Response 500 None]" and w = "[]"
       and py = "table_py [] []" and self = "\<lparr>token = ''secret''\<rparr>" and plan_id = "JStr ''P1''"
       and title = "JStr ''X''" and description = "JStr ''details''" and due_date = JNull
       and j = "JObj [(''value'', JList [JObj [(''id'', JStr ''B1'')]])]"
       and buckets = "JList [JObj [(''id'', JStr ''B1'')]]" and bucket_id = "JStr ''B1''"
       and task = "JObj [(''id'', JStr ''T1''), (''title'', JStr ''X'')]"
       and task_id = "JStr ''T1''" and task_title = "JStr ''X''" and c = 500 and b = None,
     OF _ _ _ _ refl _ _ _ _ refl]
  by (simp add: scripted_def one_bucket_def task_created_def dict_get_def truthy_def
        subscript0_def subscript_def)

text \<open>
  The claim as stated fails: when the PATCH cannot be sent, the exception of
  \<^verbatim>\<open>requests\<close> propagates out of \<^verbatim>\<open>create_task\<close>, after the task was created, and
  \<^verbatim>\<open>execute_tool\<close> reports it as an error result.
\<close>

theorem create_task_patch_transport_failure:
  "create_task (table_py [] [])
      (scripted [one_bucket, task_created, Failed ''Connection aborted''])
      \<lparr>token = ''secret''\<rparr> (JStr ''P1'') (JStr ''X'') (JStr ''details'') JNull [] =
     (Inl (RequestException ''Connection aborted''),
      [buckets_request (table_py [] []) \<lparr>token = ''secret''\<rparr> (JStr ''P1''),
       task_request (table_py [] []) \<lparr>token = ''secret''\<rparr> (JStr ''P1'') (JStr ''B1'') (JStr ''X'') JNull,
       details_request (table_py [] []) \<lparr>token = ''secret''\<rparr> (JStr ''T1'') (JStr ''details'')])
   \<and> execute_tool (table_py [] [])
      (scripted [one_bucket, task_created, Failed ''Connection aborted''])
      demo_assistant (JStr ''create_task'')
      (JObj [(''plan_id'', JStr ''P1''), (''title'', JStr ''X''), (''description'', JStr ''details'')]) [] =
     (JObj [(''error'', JStr ''Connection aborted'')],
      [buckets_request (table_py [] []) \<lparr>token = ''secret''\<rparr> (JStr ''P1''),
       task_request (table_py [] []) \<lparr>token = ''secret''\<rparr> (JStr ''P1'') (JStr ''B1'') (JStr ''X'') JNull,
       details_request (table_py [] []) \<lparr>token = ''secret''\<rparr> (JStr ''T1'') (JStr ''details'')])"
proof -
  have a: "create_task (table_py [] [])
      (scripted [one_bucket, task_created, Failed ''Connection aborted''])
      \<lparr>token = ''secret''\<rparr> (JStr ''P1'') (JStr ''X'') (JStr ''details'') JNull [] =
     (Inl (RequestException ''Connection aborted''),
      [buckets_request (table_py [] []) \<lparr>token = ''secret''\<rparr> (JStr ''P1''),
       task_request (table_py [] []) \<lparr>token = ''secret''\<rparr> (JStr ''P1'') (JStr ''B1'') (JStr ''X'') JNull,
       details_request (table_py [] []) \<lparr>token = ''secret''\<rparr> (JStr ''T1'') (JStr ''details'')])"
    by (simp add: create_task_def scripted_def one_bucket_def task_created_def dict_get_def
          truthy_def subscript0_def subscript_def response_json_def)
  show ?thesis
    by (simp add: a execute_tool_def or_error_result_def subscript_def dict_get_def
          demo_assistant_def error_result_def)
qed

text \<open>
  C7. When \<open>plan_id\<close> is omitted (\<open>None\<close>, or any value that counts as false),
  \<^verbatim>\<open>get_tasks\<close> lists the plans and goes on with the \<open>id\<close> of the first plan returned, as
  if that had been given; when the listing holds no plan it returns the error
  \<open>No plans found\<close>. With the filter \<open>incomplete\<close> the tasks of the response are filtered in
  the client: exactly those with \<open>percentComplete < 100\<close> are counted and summarised, and
  the request sent carries no query parameter, whatever the filter.
\<close>

theorem get_tasks_plan_resolution_and_filter:
  "(\<not> truthy plan_id \<and> net w (plans_request self) = Response 200 (Some j) \<and>
    dict_get j ''value'' (JList []) = Inr (JList (p # ps)) \<and>
    subscript p ''id'' = Inr first_id \<longrightarrow>
      get_tasks py net self plan_id filter_str w =
        get_plan_tasks py net self first_id filter_str (w @ [plans_request self])
      \<and> (truthy first_id \<longrightarrow>
           get_tasks py net self plan_id filter_str w =
             get_tasks py net self first_id filter_str (w @ [plans_request self])))
 \<and> (\<not> truthy plan_id \<and> net w (plans_request self) = Response 200 (Some j) \<and>
    dict_get j ''value'' (JList []) = Inr (JList []) \<longrightarrow>
      get_tasks py net self plan_id filter_str w =
        (Inr (error_result ''No plans found''), w @ [plans_request self]))
 \<and> (truthy plan_id \<and> net w (tasks_request py self plan_id) = Response 200 (Some j) \<and>
    dict_get j ''value'' (JList []) = Inr (JList ts) \<and>
    (\<forall>t\<in>set ts. \<exists>kvs i. t = JObj kvs \<and> map_of kvs ''id'' \<noteq> None \<and>
       map_of kvs ''title'' \<noteq> None \<and> map_of kvs ''percentComplete'' = Some (JInt i)) \<and>
    kept = filter (\<lambda>t. \<exists>i. subscript t ''percentComplete'' = Inr (JInt i) \<and> i < 100) ts \<longrightarrow>
      (\<exists>summaries. map_exn task_summary kept = Inr summaries \<and>
         get_tasks py net self plan_id (JStr ''incomplete'') w =
           (Inr (JObj [(''count'', JInt (int (length kept))), (''plan_id'', plan_id),
                       (''tasks'', JList summaries)]),
            w @ [tasks_request py self plan_id])))
 \<and> rq_params (tasks_request py self plan_id) = []
 \<and> rq_url (tasks_request py self plan_id) =
      ''https://graph.microsoft.com/v1.0/planner/plans/'' @ fstr py plan_id @ ''/tasks''"
proof -
  have a: "\<not> truthy plan_id \<and> net w (plans_request self) = Response 200 (Some j) \<and>
    dict_get j ''value'' (JList []) = Inr (JList (p # ps)) \<and>
    subscript p ''id'' = Inr first_id \<longrightarrow>
      get_tasks py net self plan_id filter_str w =
        get_plan_tasks py net self first_id filter_str (w @ [plans_request self])"
    by (simp add: get_tasks_def response_json_def truthy_def subscript0_def)
  have b: "\<not> truthy plan_id \<and> net w (plans_request self) = Response 200 (Some j) \<and>
    dict_get j ''value'' (JList []) = Inr (JList []) \<longrightarrow>
      get_tasks py net self plan_id filter_str w =
        (Inr (error_result ''No plans found''), w @ [plans_request self])"
    by (simp add: get_tasks_def response_json_def truthy_def)
  have c: "truthy plan_id \<and> net w (tasks_request py self plan_id) = Response 200 (Some j) \<and>
    dict_get j ''value'' (JList []) = Inr (JList ts) \<and>
    (\<forall>t\<in>set ts. \<exists>kvs i. t = JObj kvs \<and> map_of kvs ''id'' \<noteq> None \<and>
       map_of kvs ''title'' \<noteq> None \<and> map_of kvs ''percentComplete'' = Some (JInt i)) \<and>
    kept = filter (\<lambda>t. \<exists>i. subscript t ''percentComplete'' = Inr (JInt i) \<and> i < 100) ts \<longrightarrow>
      (\<exists>summaries. map_exn task_summary kept = Inr summaries \<and>
         get_tasks py net self plan_id (JStr ''incomplete'') w =
           (Inr (JObj [(''count'', JInt (int (length kept))), (''plan_id'', plan_id),
                       (''tasks'', JList summaries)]),
            w @ [tasks_request py self plan_id]))"
    using get_plan_tasks_incomplete [of net w py self plan_id j ts kept]
    by (simp add: get_tasks_given_plan)
  have d: "rq_params (tasks_request py self plan_id) = []"
    "rq_url (tasks_request py self plan_id) =
      ''https://graph.microsoft.com/v1.0/planner/plans/'' @ fstr py plan_id @ ''/tasks''"
    by (simp_all add: tasks_request_def)
  from a have a': "\<not> truthy plan_id \<and> net w (plans_request self) = Response 200 (Some j) \<and>
    dict_get j ''value'' (JList []) = Inr (JList (p # ps)) \<and>
    subscript p ''id'' = Inr first_id \<longrightarrow>
      get_tasks py net self plan_id filter_str w =
        get_plan_tasks py net self first_id filter_str (w @ [plans_request self])
      \<and> (truthy first_id \<longrightarrow>
           get_tasks py net self plan_id filter_str w =
             get_tasks py net self first_id filter_str (w @ [plans_request self]))"
    by (simp add: get_tasks_given_plan)
  show ?thesis
    using a' b c d by blast
qed

theorem get_tasks_witness:
  "get_tasks (table_py [] []) (scripted [two_plans, three_tasks]) \<lparr>token = ''secret''\<rparr>
      JNull (JStr ''incomplete'') [] =
     (Inr (JObj
        [(''count'', JInt 2), (''plan_id'', JStr ''P1''),
         (''tasks'', JList
            [JObj [(''id'', JStr ''T2''), (''title'', JStr ''Review budget''),
                   (''percent_complete'', JInt 50), (''due_date'', JNull),
                   (''priority'', JInt 5)],
             JObj [(''id'', JStr ''T3''), (''title'', JStr ''Book room''),
                   (''percent_complete'', JInt 0), (''due_date'', JNull),
                   (''priority'', JInt 5)]])]),
      [plans_request \<lparr>token = ''secret''\<rparr>,
       tasks_request (table_py [] []) \<lparr>token = ''secret''\<rparr> (JStr ''P1'')])
   \<and> get_tasks (table_py [] []) (scripted [Response 200 (Some (JObj [(''value'', JList [])]))])
      \<lparr>token = ''secret''\<rparr> JNull JNull [] =
     (Inr (JObj [(''error'', JStr ''No plans found'')]), [plans_request \<lparr>token = ''secret''\<rparr>])"
proof -
  note t = get_tasks_plan_resolution_and_filter
    [where py = "table_py [] []" and self = "\<lparr>token = ''secret''\<rparr>"]
  have k: "filter (\<lambda>t. \<exists>i. subscript t ''percentComplete'' = Inr (JInt i) \<and> i < 100)
      [demo_task ''T1'' ''Write report'' 100, demo_task ''T2'' ''Review budget'' 50,
       demo_task ''T3'' ''Book room'' 0] =
      [demo_task ''T2'' ''Review budget'' 50, demo_task ''T3'' ''Book room'' 0]"
    by (simp add: demo_task_def subscript_def)
  have s: "map_exn task_summary
      [demo_task ''T2'' ''Review budget'' 50, demo_task ''T3'' ''Book room'' 0] =
     Inr [JObj [(''id'', JStr ''T2''), (''title'', JStr ''Review budget''),
                (''percent_complete'', JInt 50), (''due_date'', JNull), (''priority'', JInt 5)],
          JObj [(''id'', JStr ''T3''), (''title'', JStr ''Book room''),
                (''percent_complete'', JInt 0), (''due_date'', JNull), (''priority'', JInt 5)]]"
    by (simp add: demo_task_def task_summary_def subscript_def dict_get_def)
  have wf: "\<forall>t\<in>set [demo_task ''T1'' ''Write report'' 100, demo_task ''T2'' ''Review budget'' 50,
       demo_task ''T3'' ''Book room'' 0].
      \<exists>kvs i. t = JObj kvs \<and> map_of kvs ''id'' \<noteq> None \<and>
       map_of kvs ''title'' \<noteq> None \<and> map_of kvs ''percentComplete'' = Some (JInt i)"
    by (simp add: demo_task_def)
  let ?net = "scripted [two_plans, three_tasks]"
  let ?self = "\<lparr>token = ''secret''\<rparr>"
  have a: "get_tasks (table_py [] []) ?net ?self JNull (JStr ''incomplete'') [] =
      get_tasks (table_py [] []) ?net ?self (JStr ''P1'') (JStr ''incomplete'')
        [plans_request ?self]"
    using
      t [where net = ?net and plan_id = JNull and w = "[]"
           and filter_str = "JStr ''incomplete''"
           and j = "JObj [(''value'', JList [JObj [(''id'', JStr ''P1''), (''title'', JStr ''Work'')],
                           JObj [(''id'', JStr ''P2''), (''title'', JStr ''Home'')]])]"
           and p = "JObj [(''id'', JStr ''P1''), (''title'', JStr ''Work'')]"
           and ps = "[JObj [(''id'', JStr ''P2''), (''title'', JStr ''Home'')]]"
           and first_id = "JStr ''P1''"]
    by (simp add: scripted_def two_plans_def truthy_def dict_get_def subscript_def
          get_tasks_given_plan)
  let ?ts = "[demo_task ''T1'' ''Write report'' 100, demo_task ''T2'' ''Review budget'' 50,
       demo_task ''T3'' ''Book room'' 0]"
  let ?kept = "[demo_task ''T2'' ''Review budget'' 50, demo_task ''T3'' ''Book room'' 0]"
  have p1: "truthy (JStr ''P1'')"
    by (simp add: truthy_def)
  have p2: "?net [plans_request ?self] (tasks_request (table_py [] []) ?self (JStr ''P1'')) =
      Response 200 (Some (JObj [(''value'', JList ?ts)]))"
    by (simp add: scripted_def three_tasks_def)
  have p3: "dict_get (JObj [(''value'', JList ?ts)]) ''value'' (JList []) = Inr (JList ?ts)"
    by (simp add: dict_get_def)
  note filtered = t [where net = ?net and plan_id = "JStr ''P1''"
      and w = "[plans_request ?self]" and j = "JObj [(''value'', JList ?ts)]"
      and ts = ?ts and kept = ?kept,
      THEN conjunct2, THEN conjunct2, THEN conjunct1, rule_format,
      OF conjI [OF p1 conjI [OF p2 conjI [OF p3 conjI [OF wf k [symmetric]]]]]]
  then obtain summaries where
    "map_exn task_summary ?kept = Inr summaries"
    "get_tasks (table_py [] []) ?net ?self (JStr ''P1'') (JStr ''incomplete'')
        [plans_request ?self] =
       (Inr (JObj [(''count'', JInt (int (length ?kept))), (''plan_id'', JStr ''P1''),
                   (''tasks'', JList summaries)]),
        [plans_request ?self] @ [tasks_request (table_py [] []) ?self (JStr ''P1'')])"
    by blast
  then have b: "get_tasks (table_py [] []) ?net ?self (JStr ''P1'') (JStr ''incomplete'')
        [plans_request ?self] =
     (Inr (JObj
        [(''count'', JInt 2), (''plan_id'', JStr ''P1''),
         (''tasks'', JList
            [JObj [(''id'', JStr ''T2''), (''title'', JStr ''Review budget''),
                   (''percent_complete'', JInt 50), (''due_date'', JNull),
                   (''priority'', JInt 5)],
             JObj [(''id'', JStr ''T3''), (''title'', JStr ''Book room''),
                   (''percent_complete'', JInt 0), (''due_date'', JNull),
                   (''priority'', JInt 5)]])]),
      [plans_request ?self, tasks_request (table_py [] []) ?self (JStr ''P1'')])"
    using s by simp
  have c: "get_tasks (table_py [] []) (scripted [Response 200 (Some (JObj [(''value'', JList [])]))])
      ?self JNull JNull [] =
     (Inr (JObj [(''error'', JStr ''No plans found'')]), [plans_request ?self])"
    using
      t [where net = "scripted [Response 200 (Some (JObj [(''value'', JList [])]))]"
           and plan_id = JNull and w = "[]" and filter_str = JNull
           and j = "JObj [(''value'', JList [])]"]
    by (simp add: scripted_def truthy_def dict_get_def error_result_def)
  show ?thesis
    using a b c by simp
qed

text \<open>
  C8. When the completion response is plain text (after trimming it is not of the form
  \<open>{...}\<close>, or it does not parse, or it parses to a dict without the key \<open>tool\<close>),
  \<^verbatim>\<open>process_request\<close> returns that text as it is, appends to the history the user
  message and exactly one assistant message holding the text, and issues no request but
  the one completion call.
\<close>

theorem plain_text_is_returned_verbatim:
  assumes "call_ollama net self
             (with_system_prompt (conversation_history self @ [message ''user'' (JStr user_input)])) w
           = (Inr (JStr R), w0)"
      and "\<not> (startswith (strip R) ''{'' \<and> endswith (strip R) ''}'')
           \<or> loads py (strip R) = None
           \<or> (\<exists>kvs. loads py (strip R) = Some (JObj kvs) \<and> ''tool'' \<notin> fst ` set kvs)"
  shows "process_request py net self user_input w =
           (Inr (JStr R),
            self\<lparr>conversation_history := conversation_history self @
               [message ''user'' (JStr user_input), message ''assistant'' (JStr R)]\<rparr>,
            w @ [chat_request self
              (with_system_prompt (conversation_history self @ [message ''user'' (JStr user_input)]))])"
proof -
  have "is_tool_call py (JStr R) = Inr False"
    using assms(2) by (auto simp: is_tool_call_JStr contains_JObj)
  then have "process_request py net self user_input w =
           (Inr (JStr R),
            self\<lparr>conversation_history := conversation_history self @
               [message ''user'' (JStr user_input), message ''assistant'' (JStr R)]\<rparr>, w0)"
    using process_request_normal [OF assms(1)] by simp
  then show ?thesis
    using call_ollama_world [OF assms(1)] by simp
qed

theorem plain_text_witness:
  \<open>process_request (table_py [(''{"note": "x"}'', JObj [(''note'', JStr ''x'')])] [])
      (scripted [chat_reply (JStr ''{"note": "x"}'')]) demo_assistant ''hi'' [] =
     (Inr (JStr ''{"note": "x"}''),
      demo_assistant\<lparr>conversation_history :=
        [message ''user'' (JStr ''hi''), message ''assistant'' (JStr ''{"note": "x"}'')]\<rparr>,
      [chat_request demo_assistant (with_system_prompt [message ''user'' (JStr ''hi'')])])
   \<and> process_request (table_py [] [])
      (scripted [chat_reply (JStr ''You have no new mail.'')]) demo_assistant ''hi'' [] =
     (Inr (JStr ''You have no new mail.''),
      demo_assistant\<lparr>conversation_history :=
        [message ''user'' (JStr ''hi''), message ''assistant'' (JStr ''You have no new mail.'')]\<rparr>,
      [chat_request demo_assistant (with_system_prompt [message ''user'' (JStr ''hi'')])])\<close>
proof -
  have h: "conversation_history demo_assistant = []"
    by (simp add: demo_assistant_def)
  have s1: \<open>strip ''{"note": "x"}'' = ''{"note": "x"}''\<close>
    by (simp add: strip_def isspace_def)
  have s2: "strip ''You have no new mail.'' = ''You have no new mail.''"
    by (simp add: strip_def isspace_def)
  have c1: \<open>call_ollama (scripted [chat_reply (JStr ''{"note": "x"}'')]) demo_assistant
      (with_system_prompt (conversation_history demo_assistant @ [message ''user'' (JStr ''hi'')])) []
      = (Inr (JStr ''{"note": "x"}''),
         [chat_request demo_assistant (with_system_prompt [message ''user'' (JStr ''hi'')])])\<close>
    by (simp add: call_ollama_reply scripted_def h)
  have c2: "call_ollama (scripted [chat_reply (JStr ''You have no new mail.'')]) demo_assistant
      (with_system_prompt (conversation_history demo_assistant @ [message ''user'' (JStr ''hi'')])) []
      = (Inr (JStr ''You have no new mail.''),
         [chat_request demo_assistant (with_system_prompt [message ''user'' (JStr ''hi'')])])"
    by (simp add: call_ollama_reply scripted_def h)
  have p1: \<open>\<not> (startswith (strip ''{"note": "x"}'') ''{'' \<and> endswith (strip ''{"note": "x"}'') ''}'')
           \<or> loads (table_py [(''{"note": "x"}'', JObj [(''note'', JStr ''x'')])] []) (strip ''{"note": "x"}'') = None
           \<or> (\<exists>kvs. loads (table_py [(''{"note": "x"}'', JObj [(''note'', JStr ''x'')])] []) (strip ''{"note": "x"}'') = Some (JObj kvs) \<and> ''tool'' \<notin> fst ` set kvs)\<close>
    by (simp add: s1 table_py_def)
  have p2: "\<not> (startswith (strip ''You have no new mail.'') ''{'' \<and> endswith (strip ''You have no new mail.'') ''}'')
           \<or> loads (table_py [] []) (strip ''You have no new mail.'') = None
           \<or> (\<exists>kvs. loads (table_py [] []) (strip ''You have no new mail.'') = Some (JObj kvs) \<and> ''tool'' \<notin> fst ` set kvs)"
    by (simp add: s2 startswith_def)
  show ?thesis
    using plain_text_is_returned_verbatim [OF c1 p1] plain_text_is_returned_verbatim [OF c2 p2]
    by (simp add: h)
qed

text \<open>
  C9. Every completion call of a turn passes the system message, built anew, followed by
  the whole conversation history as it stands at the call: the first call is made with
  the history extended by the user message; a second call, if there is one, with the
  history extended further by the tool marker and the tool-result message. The requests
  between the two are those of \<^verbatim>\<open>execute_tool\<close>, none of which is a completion request.
  The history the turn leaves extends the history of its last call by at most one
  assistant message, and no message appended during the turn is a system message.
\<close>

theorem completion_calls_carry_prompt_and_history:
  assumes run: "process_request py net self user_input w = (result, self', w')"
      and h: "h = conversation_history self @ [message ''user'' (JStr user_input)]"
      and chat: "chat = chat_request self (with_system_prompt h)"
  shows "((w' = w @ [chat] \<and>
           (conversation_history self' = h \<or>
            (\<exists>r. conversation_history self' = h @ [message ''assistant'' r])))
        \<or> (\<exists>tool_name parameters tool_result rs hist.
             execute_tool py net self tool_name parameters (w @ [chat]) =
               (tool_result, w @ [chat] @ rs) \<and>
             (\<forall>rq\<in>set rs. \<forall>ms. rq \<noteq> chat_request self ms) \<and>
             hist = h @ [tool_marker py tool_name, tool_result_message py tool_result] \<and>
             w' = w @ [chat] @ rs @ [chat_request self (with_system_prompt hist)] \<and>
             (conversation_history self' = hist \<or>
              (\<exists>r. conversation_history self' = hist @ [message ''assistant'' r]))))
       \<and> (\<forall>c. message ''system'' c \<notin>
             set (drop (length (conversation_history self)) (conversation_history self')))
       \<and> (\<forall>ms. with_system_prompt ms = message ''system'' (JStr create_system_prompt) # ms)"
proof -
  note shape = process_request_shape [OF run h chat]
  have 1: "(w' = w @ [chat] \<and>
           (conversation_history self' = h \<or>
            (\<exists>r. conversation_history self' = h @ [message ''assistant'' r])))
        \<or> (\<exists>tool_name parameters tool_result rs hist.
             execute_tool py net self tool_name parameters (w @ [chat]) =
               (tool_result, w @ [chat] @ rs) \<and>
             (\<forall>rq\<in>set rs. \<forall>ms. rq \<noteq> chat_request self ms) \<and>
             hist = h @ [tool_marker py tool_name, tool_result_message py tool_result] \<and>
             w' = w @ [chat] @ rs @ [chat_request self (with_system_prompt hist)] \<and>
             (conversation_history self' = hist \<or>
              (\<exists>r. conversation_history self' = hist @ [message ''assistant'' r])))"
    using shape
  proof
    assume "w' = w @ [chat] \<and>
           (conversation_history self' = h \<or>
            (\<exists>r. conversation_history self' = h @ [message ''assistant'' r]))"
    then show ?thesis by blast
  next
    assume "\<exists>tool_name parameters tool_result rs hist.
            execute_tool py net self tool_name parameters (w @ [chat]) =
              (tool_result, w @ [chat] @ rs) \<and>
            list_all (\<lambda>rq. rq_headers rq = get_headers (m365 self)) rs \<and>
            hist = h @ [tool_marker py tool_name, tool_result_message py tool_result] \<and>
            w' = w @ [chat] @ rs @ [chat_request self (with_system_prompt hist)] \<and>
            (conversation_history self' = hist \<or>
             (\<exists>r. conversation_history self' = hist @ [message ''assistant'' r]))"
    then obtain tool_name parameters tool_result rs hist where b:
      "execute_tool py net self tool_name parameters (w @ [chat]) =
              (tool_result, w @ [chat] @ rs)"
      "list_all (\<lambda>rq. rq_headers rq = get_headers (m365 self)) rs"
      "hist = h @ [tool_marker py tool_name, tool_result_message py tool_result]"
      "w' = w @ [chat] @ rs @ [chat_request self (with_system_prompt hist)]"
      "conversation_history self' = hist \<or>
             (\<exists>r. conversation_history self' = hist @ [message ''assistant'' r])"
      by blast
    have "\<forall>rq\<in>set rs. \<forall>ms. rq \<noteq> chat_request self ms"
    proof (intro ballI allI notI)
      fix rq ms
      assume "rq \<in> set rs" "rq = chat_request self ms"
      with b(2) have "rq_headers (chat_request self ms) = get_headers (m365 self)"
        by (auto simp: list_all_iff)
      then show False
        by (metis chat_request_headers get_headers_nonempty)
    qed
    with b show ?thesis by blast
  qed
  have 2: "message ''system'' c \<notin>
             set (drop (length (conversation_history self)) (conversation_history self'))" for c
    using shape h
    by (auto simp: tool_marker_def tool_result_message_def)
  have 3: "with_system_prompt ms = message ''system'' (JStr create_system_prompt) # ms" for ms
    by (simp add: with_system_prompt_def)
  show ?thesis
    using 1 2 3 by blast
qed

theorem completion_calls_witness:
  "(([chat_request demo_assistant (with_system_prompt [message ''user'' (JStr ''Write to Ann'')]),
       mail_request (m365 demo_assistant) (JStr ''ann@example.com'') (JStr ''Hello'') (JStr ''Hi Ann''),
       chat_request demo_assistant (with_system_prompt send_history)] = [] @ [chat_request demo_assistant (with_system_prompt (conversation_history demo_assistant @ [message ''user'' (JStr ''Write to Ann'')]))] \<and>
           (conversation_history (demo_assistant\<lparr>conversation_history :=
        send_history @ [message ''assistant'' (JStr ''Your email to Ann was sent.'')]\<rparr>) = (conversation_history demo_assistant @ [message ''user'' (JStr ''Write to Ann'')]) \<or>
            (\<exists>r. conversation_history (demo_assistant\<lparr>conversation_history :=
        send_history @ [message ''assistant'' (JStr ''Your email to Ann was sent.'')]\<rparr>) = (conversation_history demo_assistant @ [message ''user'' (JStr ''Write to Ann'')]) @ [message ''assistant'' r])))
        \<or> (\<exists>tool_name parameters tool_result rs hist.
             execute_tool send_py send_net demo_assistant tool_name parameters ([] @ [chat_request demo_assistant (with_system_prompt (conversation_history demo_assistant @ [message ''user'' (JStr ''Write to Ann'')]))]) =
               (tool_result, [] @ [chat_request demo_assistant (with_system_prompt (conversation_history demo_assistant @ [message ''user'' (JStr ''Write to Ann'')]))] @ rs) \<and>
             (\<forall>rq\<in>set rs. \<forall>ms. rq \<noteq> chat_request demo_assistant ms) \<and>
             hist = (conversation_history demo_assistant @ [message ''user'' (JStr ''Write to Ann'')]) @ [tool_marker send_py tool_name, tool_result_message send_py tool_result] \<and>
             [chat_request demo_assistant (with_system_prompt [message ''user'' (JStr ''Write to Ann'')]),
       mail_request (m365 demo_assistant) (JStr ''ann@example.com'') (JStr ''Hello'') (JStr ''Hi Ann''),
       chat_request demo_assistant (with_system_prompt send_history)] = [] @ [chat_request demo_assistant (with_system_prompt (conversation_history demo_assistant @ [message ''user'' (JStr ''Write to Ann'')]))] @ rs @ [chat_request demo_assistant (with_system_prompt hist)] \<and>
             (conversation_history (demo_assistant\<lparr>conversation_history :=
        send_history @ [message ''assistant'' (JStr ''Your email to Ann was sent.'')]\<rparr>) = hist \<or>
              (\<exists>r. conversation_history (demo_assistant\<lparr>conversation_history :=
        send_history @ [message ''assistant'' (JStr ''Your email to Ann was sent.'')]\<rparr>) = hist @ [message ''assistant'' r]))))
       \<and> (\<forall>c. message ''system'' c \<notin>
             set (drop (length (conversation_history demo_assistant)) (conversation_history (demo_assistant\<lparr>conversation_history :=
        send_history @ [message ''assistant'' (JStr ''Your email to Ann was sent.'')]\<rparr>))))
       \<and> (\<forall>ms. with_system_prompt ms = message ''system'' (JStr create_system_prompt) # ms)"
  by (rule completion_calls_carry_prompt_and_history [OF send_turn refl refl])

text \<open>
  C10. \<^verbatim>\<open>process_request\<close> appends the user message to the history before the first
  completion call. When that call fails (the transport fails, or the status is not 200),
  the turn ends with the exception and the history keeps the user message: nothing is
  rolled back.
\<close>

theorem user_message_stays_when_first_completion_fails:
  assumes "begun = append_message self (message ''user'' (JStr user_input))"
      and "rq = chat_request self (with_system_prompt (conversation_history begun))"
  shows "conversation_history begun =
           conversation_history self @ [message ''user'' (JStr user_input)]
       \<and> (call_ollama net self (with_system_prompt (conversation_history begun)) w = (Inl e, w0)
            \<longrightarrow> process_request py net self user_input w = (Inl e, begun, w0))
       \<and> (net w rq = Failed m
            \<longrightarrow> process_request py net self user_input w =
                  (Inl (RequestException m), begun, w @ [rq]))
       \<and> (net w rq = Response c b \<and> c \<noteq> 200
            \<longrightarrow> process_request py net self user_input w =
                  (Inl (Exception (''Ollama API error: '' @ str_int c)), begun, w @ [rq]))"
  using assms by (simp add: process_request_def Let_def call_ollama_def)

theorem user_message_stays_witness:
  "process_request (table_py [] []) (scripted []) demo_assistant ''hi'' [] =
     (Inl (RequestException ''Connection refused''),
      demo_assistant\<lparr>conversation_history := [message ''user'' (JStr ''hi'')]\<rparr>,
      [chat_request demo_assistant (with_system_prompt [message ''user'' (JStr ''hi'')])])
   \<and> process_request (table_py [] []) (scripted [Response 503 None]) demo_assistant ''hi'' [] =
     (Inl (Exception ''Ollama API error: 503''),
      demo_assistant\<lparr>conversation_history := [message ''user'' (JStr ''hi'')]\<rparr>,
      [chat_request demo_assistant (with_system_prompt [message ''user'' (JStr ''hi'')])])"
proof -
  note a = user_message_stays_when_first_completion_fails
    [where self = demo_assistant and user_input = "''hi''" and w = "[]"
       and py = "table_py [] []", OF refl refl]
  have h: "conversation_history demo_assistant = []"
    by (simp add: demo_assistant_def)
  have ap: "append_message demo_assistant (message ''user'' (JStr ''hi'')) =
      demo_assistant\<lparr>conversation_history := [message ''user'' (JStr ''hi'')]\<rparr>"
    by (simp add: append_message_def h)
  show ?thesis
    using a [where net = "scripted []" and m = "''Connection refused''"]
      a [where net = "scripted [Response 503 None]" and c = 503 and b = None]
    by (simp add: scripted_def h ap str_int_503)
qed

end
